theory Spec2Isabelle
  imports Complex_Main "HOL-Library.Word"
begin

section \<open>Index space: indexes and slices\<close>

text \<open>
  A \<^verbatim>\<open>Laik_Index\<close> is the C array \<^verbatim>\<open>uint64_t i[3]\<close>; a \<^verbatim>\<open>Laik_Slice\<close> is the half-open
  box between two indexes, together with the dimension count of its space
  (\<^verbatim>\<open>slc->space->dims\<close>).  Coordinates are unsigned 64-bit machine words: \<open>+\<close> wraps and
  \<open><\<close> is the unsigned comparison, as in the C code.
\<close>

type_synonym uint64 = "64 word"

record Laik_Index =
  i0 :: uint64
  i1 :: uint64
  i2 :: uint64

record Laik_Slice =
  dims :: nat
  slc_from :: Laik_Index
  slc_to :: Laik_Index

text \<open>
  \<^verbatim>\<open>next_lex\<close> of the TCP2 backend: advance \<open>idx\<close> by one position in the traversal of
  \<open>slc\<close>; the boolean is the C return value (true while the traversal goes on), the
  index is the updated \<^verbatim>\<open>*idx\<close>.
\<close>

definition next_lex :: "Laik_Slice \<Rightarrow> Laik_Index \<Rightarrow> bool \<times> Laik_Index" where
  "next_lex slc idx =
    (let idx = idx\<lparr>i0 := i0 idx + 1\<rparr> in
     if i0 idx < i0 (slc_to slc) then (True, idx)
     else if dims slc = 1 then (False, idx)
     else
       let idx = idx\<lparr>i1 := i1 idx + 1\<rparr>;
           idx = idx\<lparr>i0 := i0 (slc_from slc)\<rparr> in
       if i1 idx < i1 (slc_to slc) then (True, idx)
       else if dims slc = 2 then (False, idx)
       else
         let idx = idx\<lparr>i2 := i2 idx + 1\<rparr>;
             idx = idx\<lparr>i1 := i1 (slc_from slc)\<rparr> in
         if i2 idx < i2 (slc_to slc) then (True, idx) else (False, idx))"

text \<open>
  Modelled from the spec: \<^verbatim>\<open>laik_slice_size\<close> is declared in a header that is not part of
  the sources; \<open>|slc|\<close> is the number of indexes in the box, the product of the extents
  of the first \<open>dims\<close> axes.
\<close>

definition extent :: "uint64 \<Rightarrow> uint64 \<Rightarrow> nat" where
  "extent a b = unat (b - a)"

definition laik_slice_size :: "Laik_Slice \<Rightarrow> nat" where
  "laik_slice_size slc =
     extent (i0 (slc_from slc)) (i0 (slc_to slc)) *
     (if 1 < dims slc then extent (i1 (slc_from slc)) (i1 (slc_to slc)) else 1) *
     (if 2 < dims slc then extent (i2 (slc_from slc)) (i2 (slc_to slc)) else 1)"

text \<open>A slice is non-empty when every axis it uses has \<open>from < to\<close>.\<close>

definition slice_nonempty :: "Laik_Slice \<Rightarrow> bool" where
  "slice_nonempty slc =
     (i0 (slc_from slc) < i0 (slc_to slc) \<and>
      (if 1 < dims slc then i1 (slc_from slc) < i1 (slc_to slc) else True) \<and>
      (if 2 < dims slc then i2 (slc_from slc) < i2 (slc_to slc) else True))"

text \<open>
  The receive traversal: \<^verbatim>\<open>recv_slice\<close> sets \<^verbatim>\<open>ridx = slc->from\<close>, and every accepted
  element calls \<^verbatim>\<open>next_lex(rslc, &ridx)\<close> once.  \<open>lex_steps slc k\<close> is the return value
  of the \<open>k\<close>-th call together with \<^verbatim>\<open>ridx\<close> after it (before the first call the
  traversal is at \<open>slc_from\<close>).
\<close>

fun lex_steps :: "Laik_Slice \<Rightarrow> nat \<Rightarrow> bool \<times> Laik_Index" where
  "lex_steps slc 0 = (True, slc_from slc)"
| "lex_steps slc (Suc k) = next_lex slc (snd (lex_steps slc k))"

text \<open>
  Equality of two indexes of a \<open>d\<close>-dimensional space: only the first \<open>d\<close> coordinates
  count (the unused ones are never written by the traversal).
\<close>

definition index_isEqual :: "nat \<Rightarrow> Laik_Index \<Rightarrow> Laik_Index \<Rightarrow> bool" where
  "index_isEqual d a b =
     (i0 a = i0 b \<and> (if 1 < d then i1 a = i1 b else True) \<and>
      (if 2 < d then i2 a = i2 b else True))"

text \<open>
  Where the traversal stands once it is exhausted: the last axis has reached \<open>slc_to\<close>,
  every lower axis has been reset to \<open>slc_from\<close>.
\<close>

definition lex_end :: "Laik_Slice \<Rightarrow> Laik_Index" where
  "lex_end slc =
     (if dims slc = 1 then (slc_from slc)\<lparr>i0 := i0 (slc_to slc)\<rparr>
      else if dims slc = 2 then (slc_from slc)\<lparr>i1 := i1 (slc_to slc)\<rparr>
      else (slc_from slc)\<lparr>i2 := i2 (slc_to slc)\<rparr>)"

text \<open>
  Auxiliary notions for reasoning about the traversal: the extents of the axes in use,
  the index at offsets \<open>(a, b, c)\<close> from \<open>slc_from\<close>, and the rank of that index in
  the order in which \<^verbatim>\<open>next_lex\<close> visits the slice (axis 0 runs fastest).
\<close>

definition ext0 :: "Laik_Slice \<Rightarrow> nat" where
  "ext0 slc = extent (i0 (slc_from slc)) (i0 (slc_to slc))"

definition ext1 :: "Laik_Slice \<Rightarrow> nat" where
  "ext1 slc = (if 1 < dims slc then extent (i1 (slc_from slc)) (i1 (slc_to slc)) else 1)"

definition ext2 :: "Laik_Slice \<Rightarrow> nat" where
  "ext2 slc = (if 2 < dims slc then extent (i2 (slc_from slc)) (i2 (slc_to slc)) else 1)"

definition lex_at :: "Laik_Slice \<Rightarrow> nat \<Rightarrow> nat \<Rightarrow> nat \<Rightarrow> Laik_Index" where
  "lex_at slc a b c =
     \<lparr>i0 = i0 (slc_from slc) + of_nat a, i1 = i1 (slc_from slc) + of_nat b,
      i2 = i2 (slc_from slc) + of_nat c\<rparr>"

definition lex_rank :: "Laik_Slice \<Rightarrow> nat \<Rightarrow> nat \<Rightarrow> nat \<Rightarrow> nat" where
  "lex_rank slc a b c = a + ext0 slc * (b + ext1 slc * c)"

text \<open>A two-dimensional example slice, \<open>[0,2) \<times> [0,2)\<close>.\<close>

definition slice_2x2 :: Laik_Slice where
  "slice_2x2 = \<lparr>dims = 2, slc_from = \<lparr>i0 = 0, i1 = 0, i2 = 0\<rparr>,
                 slc_to = \<lparr>i0 = 2, i1 = 2, i2 = 0\<rparr>\<rparr>"

section \<open>Collective (MPI) backend\<close>

subsection \<open>Buffers of a transition plan\<close>

text \<open>
  The fields of \<^verbatim>\<open>Laik_TransitionPlan\<close> that \<^verbatim>\<open>laik_transplan_appendBuf\<close> touches.  A
  \<^verbatim>\<open>char*\<close> is \<open>None\<close> when it is the null pointer and \<open>Some a\<close> for the address \<open>a\<close>.
  \<open>buf\<close> is \<open>None\<close> while \<^verbatim>\<open>tp->buf\<close> is null; otherwise it holds the entries
  \<^verbatim>\<open>tp->buf[0 .. bufCount-1]\<close> written so far (the array itself has room for
  \<open>bufAllocCount\<close> entries).
\<close>

type_synonym ptr = "nat option"

record Laik_TransitionPlan =
  bufCount :: int
  bufAllocCount :: int
  buf :: "ptr list option"

datatype panic = OutOfMemory

text \<open>\<^verbatim>\<open>laik_transplan_new\<close>, restricted to the buffer fields.\<close>

definition laik_transplan_new :: Laik_TransitionPlan where
  "laik_transplan_new = \<lparr>bufCount = 0, bufAllocCount = 0, buf = None\<rparr>"

text \<open>
  \<^verbatim>\<open>laik_transplan_appendBuf(tp, size)\<close>.  The two allocator calls are inputs of the model:
  \<open>realloc_ok\<close> tells whether \<^verbatim>\<open>realloc\<close> returns a non-null array, \<open>malloc_res\<close> is the
  pointer \<^verbatim>\<open>malloc(size)\<close> returns.  \<^verbatim>\<open>laik_panic\<close> never returns (\<open>Inl\<close>); otherwise
  the result is the updated plan and the returned buffer number.
\<close>

definition laik_transplan_appendBuf ::
  "Laik_TransitionPlan \<Rightarrow> int \<Rightarrow> bool \<Rightarrow> ptr \<Rightarrow> panic + (Laik_TransitionPlan \<times> int)" where
  "laik_transplan_appendBuf tp sz realloc_ok malloc_res =
    (let grown =
       (if bufCount tp = bufAllocCount tp then
          (let tp1 = tp\<lparr>bufAllocCount := (bufCount tp + 20) * 2\<rparr>;
               tp2 = tp1\<lparr>buf := (if realloc_ok
                                   then Some (case buf tp of None \<Rightarrow> [] | Some bs \<Rightarrow> bs)
                                   else None)\<rparr>
           in if buf tp2 = None then Inl OutOfMemory else Inr tp2)
        else Inr tp)
     in case grown of
          Inl e \<Rightarrow> Inl e
        | Inr tp' \<Rightarrow>
            (if malloc_res \<noteq> None then Inl OutOfMemory
             else
               let bufNo = bufCount tp';
                   tp'' = tp'\<lparr>buf := Some ((case buf tp' of None \<Rightarrow> [] | Some bs \<Rightarrow> bs)
                                               @ [malloc_res])\<rparr>;
                   tp''' = tp''\<lparr>bufCount := bufCount tp'' + 1\<rparr>
               in Inr (tp''', bufNo)))"

subsection \<open>The two-sweep transfer schedule of \<^verbatim>\<open>laik_mpi_exec\<close>\<close>













section \<open>Point-to-point (TCP2) backend\<close>

subsection \<open>Text helpers: what \<^verbatim>\<open>sprintf\<close> and \<^verbatim>\<open>sscanf\<close> do in this backend\<close>

type_synonym byte = "8 word"

definition digit_char :: "nat \<Rightarrow> char" where
  "digit_char n = char_of (48 + n)"

function dec_nat :: "nat \<Rightarrow> string" where
  "dec_nat n = (if n < 10 then [digit_char n] else dec_nat (n div 10) @ [digit_char (n mod 10)])"
  by pat_completeness auto
termination
  by (relation "measure id") auto

text \<open>\<^verbatim>\<open>%d\<close> and \<^verbatim>\<open>%llu\<close>: decimal digits, with a minus sign for a negative number.\<close>

definition dec :: "int \<Rightarrow> string" where
  "dec v = (if v < 0 then CHR ''-'' # dec_nat (nat (- v)) else dec_nat (nat v))"

text \<open>\<^verbatim>\<open>%2d\<close>: padded with a blank to two characters.\<close>

definition dec2 :: "int \<Rightarrow> string" where
  "dec2 v = (if length (dec v) < 2 then CHR '' '' # dec v else dec v)"



text \<open>\<^verbatim>\<open>%s\<close> of a \<^verbatim>\<open>char*\<close> that may be null (the C library prints \<^verbatim>\<open>(null)\<close>).\<close>

definition str_or_null :: "string option \<Rightarrow> string" where
  "str_or_null s = (case s of None \<Rightarrow> ''(null)'' | Some t \<Rightarrow> t)"

text \<open>
  \<^verbatim>\<open>istr(dims, idx)\<close>: the coordinates in use, separated by slashes.  For any other
  \<open>dims\<close> the C function leaves its static buffer as it is; a space has 1 to 3
  dimensions, and the model returns the empty string there.
\<close>

definition istr :: "nat \<Rightarrow> Laik_Index \<Rightarrow> string" where
  "istr d idx =
    (if d = 1 then dec (uint (i0 idx))
     else if d = 2 then dec (uint (i0 idx)) @ ''/'' @ dec (uint (i1 idx))
     else if d = 3 then dec (uint (i0 idx)) @ ''/'' @ dec (uint (i1 idx)) @ ''/'' @ dec (uint (i2 idx))
     else [])"

text \<open>
  The C library's \<^verbatim>\<open>sscanf\<close>, for the directives the backend uses.  A message is the C
  string handed to the handler (it holds no NUL).  White space is what \<^verbatim>\<open>isspace\<close>
  accepts; \<^verbatim>\<open>%Ns\<close> skips white space and takes up to \<open>N\<close> non-blank characters; \<^verbatim>\<open>%d\<close>
  skips white space and takes an optional sign and at least one digit (its value is
  kept as a mathematical integer: a number outside the range of \<^verbatim>\<open>int\<close> is undefined
  behaviour in C and is not modelled).  Each function returns \<open>None\<close> when \<^verbatim>\<open>sscanf\<close>
  returns fewer items than the caller asks for.
\<close>

definition isspace :: "char \<Rightarrow> bool" where
  "isspace c = (of_char c \<in> {32, 9, 10, 11, 12, 13 :: nat})"

definition isdigit :: "char \<Rightarrow> bool" where
  "isdigit c = (48 \<le> (of_char c :: nat) \<and> (of_char c :: nat) \<le> 57)"

definition skip_ws :: "string \<Rightarrow> string" where
  "skip_ws s = dropWhile isspace s"

definition scan_str :: "nat \<Rightarrow> string \<Rightarrow> (string \<times> string) option" where
  "scan_str n s =
    (let s1 = skip_ws s;
         tok = take n (takeWhile (\<lambda>c. \<not> isspace c) s1)
     in if tok = [] then None else Some (tok, drop (length tok) s1))"

definition digits_val :: "string \<Rightarrow> int" where
  "digits_val ds = foldl (\<lambda>v c. 10 * v + (int (of_char c) - 48)) 0 ds"

definition scan_int :: "string \<Rightarrow> (int \<times> string) option" where
  "scan_int s =
    (let s1 = skip_ws s;
         neg = (case s1 of [] \<Rightarrow> False | c # cs \<Rightarrow> c = CHR ''-'');
         s2 = (case s1 of [] \<Rightarrow> [] | c # cs \<Rightarrow> if c = CHR ''-'' \<or> c = CHR ''+'' then cs else s1);
         ds = takeWhile isdigit s2
     in if ds = [] then None
        else Some (if neg then - digits_val ds else digits_val ds, drop (length ds) s2))"

text \<open>\<^verbatim>\<open>sscanf(msg, "%20s %d %n", cmd, &len, &i) < 2\<close>: the length and the offset \<open>i\<close>.\<close>

definition sscanf_data :: "string \<Rightarrow> (int \<times> nat) option" where
  "sscanf_data msg =
    (case scan_str 20 msg of
       None \<Rightarrow> None
     | Some (cmd, r1) \<Rightarrow>
        (case scan_int r1 of
           None \<Rightarrow> None
         | Some (len, r2) \<Rightarrow> Some (len, length msg - length (skip_ws r2))))"

text \<open>\<^verbatim>\<open>sscanf(msg, "%20s %d", cmd, &v) < 2\<close>.\<close>

definition sscanf_int :: "string \<Rightarrow> int option" where
  "sscanf_int msg =
    (case scan_str 20 msg of
       None \<Rightarrow> None
     | Some (cmd, r1) \<Rightarrow> (case scan_int r1 of None \<Rightarrow> None | Some (v, r2) \<Rightarrow> Some v))"

text \<open>\<^verbatim>\<open>sscanf(msg, "%20s %d %d", cmd, &count, &esize) < 3\<close>.\<close>

definition sscanf_int_int :: "string \<Rightarrow> (int \<times> int) option" where
  "sscanf_int_int msg =
    (case scan_str 20 msg of
       None \<Rightarrow> None
     | Some (cmd, r1) \<Rightarrow>
        (case scan_int r1 of
           None \<Rightarrow> None
         | Some (a, r2) \<Rightarrow> (case scan_int r2 of None \<Rightarrow> None | Some (b, r3) \<Rightarrow> Some (a, b))))"

text \<open>\<^verbatim>\<open>sscanf(msg, "%20s %50s %50s %d", cmd, l, h, &p) < 4\<close>.\<close>

definition sscanf_register :: "string \<Rightarrow> (string \<times> string \<times> int) option" where
  "sscanf_register msg =
    (case scan_str 20 msg of
       None \<Rightarrow> None
     | Some (cmd, r1) \<Rightarrow>
        (case scan_str 50 r1 of
           None \<Rightarrow> None
         | Some (l, r2) \<Rightarrow>
            (case scan_str 50 r2 of
               None \<Rightarrow> None
             | Some (h, r3) \<Rightarrow>
                (case scan_int r3 of None \<Rightarrow> None | Some (p, r4) \<Rightarrow> Some (l, h, p)))))"

text \<open>\<^verbatim>\<open>sscanf(msg, "%20s %d %50s %50s %d", cmd, &lid, l, h, &p) < 5\<close>.\<close>

definition sscanf_id :: "string \<Rightarrow> (int \<times> string \<times> string \<times> int) option" where
  "sscanf_id msg =
    (case scan_str 20 msg of
       None \<Rightarrow> None
     | Some (cmd, r1) \<Rightarrow>
        (case scan_int r1 of
           None \<Rightarrow> None
         | Some (lid, r2) \<Rightarrow>
            (case scan_str 50 r2 of
               None \<Rightarrow> None
             | Some (l, r3) \<Rightarrow>
                (case scan_str 50 r3 of
                   None \<Rightarrow> None
                 | Some (h, r4) \<Rightarrow>
                    (case scan_int r4 of
                       None \<Rightarrow> None
                     | Some (p, r5) \<Rightarrow> Some (lid, l, h, p))))))"

subsection \<open>State of the backend\<close>

definition MAX_PEERS :: int where "MAX_PEERS = 256"
definition MAX_FDS :: int where "MAX_FDS = 256"
definition RBUF_LEN :: nat where "RBUF_LEN = 256"

datatype Laik_ReductionOperation =
  LAIK_RO_None | LAIK_RO_Sum | LAIK_RO_Prod | LAIK_RO_Min | LAIK_RO_Max

text \<open>
  What the backend reads of a \<^verbatim>\<open>Laik_Mapping\<close>: the memory at \<^verbatim>\<open>start\<close> (\<open>None\<close> for a
  null pointer, otherwise the bytes by offset from \<^verbatim>\<open>start\<close>), the layout's
  \<^verbatim>\<open>offset\<close> function applied to the mapping's section, the element size of its
  container, and the \<^verbatim>\<open>reduce\<close> function of the element type for one element
  (\<open>None\<close> when the type has none): existing bytes, incoming bytes and operation to
  resulting bytes.
\<close>

record Laik_Mapping =
  start :: "(int \<Rightarrow> byte) option"
  layout_offset :: "Laik_Index \<Rightarrow> int"
  elemsize :: int
  type_reduce :: "(byte list \<Rightarrow> byte list \<Rightarrow> Laik_ReductionOperation \<Rightarrow> byte list) option"

text \<open>
  \<^verbatim>\<open>Peer\<close>.  A \<^verbatim>\<open>char*\<close> is \<open>None\<close> when null; \<open>rmap\<close> points into the table of mappings
  of the state; \<open>rslc\<close> is the slice \<^verbatim>\<open>rslc\<close> points to.
\<close>

record Peer =
  fd :: int
  port :: int
  host :: "string option"
  location :: "string option"
  rcount :: int
  relemsize :: int
  roff :: int
  rmap :: "nat option"
  rslc :: Laik_Slice
  ridx :: Laik_Index
  rro :: Laik_ReductionOperation
  scount :: int
  selemsize :: int

datatype loop_cb = cb_got_bytes | cb_got_connect

text \<open>
  \<^verbatim>\<open>FDState\<close>.  \<open>cb\<close> is \<open>None\<close> for the null function pointer; \<open>rbuf\<close> holds the first
  \<^verbatim>\<open>rbuf_used\<close> bytes of the receive buffer, so \<^verbatim>\<open>rbuf_used\<close> is its length.
\<close>

record FDState =
  lid :: int
  cb :: "loop_cb option"
  rbuf :: string

datatype log_level = LAIK_LL_Warning | LAIK_LL_Panic

text \<open>
  \<^verbatim>\<open>InstData\<close>, followed by the parts of the world the backend acts on: the mappings
  that \<^verbatim>\<open>rmap\<close> pointers refer to, the descriptors that are open, how a connection
  attempt to a host and port ends (\<open>Some\<close> of the new descriptor, or \<open>None\<close> when
  \<^verbatim>\<open>getaddrinfo\<close> or every \<^verbatim>\<open>connect\<close> fails), the command lines written so far with the
  descriptor they went to, and the messages logged at warning level or above
  (\<^verbatim>\<open>laik_log\<close> at level 1 or 2 is debug output and is left out).
\<close>

record InstData =
  mylid :: int
  my_location :: string
  listenfd :: int
  listenport :: int
  maxid :: int
  phase :: int
  maxfds :: int
  rset :: "int \<Rightarrow> bool"
  exit :: int
  fds :: "int \<Rightarrow> FDState"
  peers :: int
  peer :: "int \<Rightarrow> Peer"
  maps :: "nat \<Rightarrow> Laik_Mapping"
  os_open :: "int \<Rightarrow> bool"
  connect_to :: "string option \<Rightarrow> int \<Rightarrow> int option"
  wire :: "(int \<times> string) list"
  logs :: "(log_level \<times> string) list"

text \<open>
  How a handler can end other than by returning: a failed \<^verbatim>\<open>assert\<close>, \<^verbatim>\<open>exit(1)\<close>,
  undefined behaviour of C, or \<^verbatim>\<open>select\<close> waiting for input that never comes.
\<close>

datatype stop = Assertion_failed | Process_exit | Undefined_behaviour | Blocked

definition laik_log :: "log_level \<Rightarrow> string \<Rightarrow> InstData \<Rightarrow> InstData" where
  "laik_log lvl txt d = d\<lparr>logs := logs d @ [(lvl, txt)]\<rparr>"

subsection \<open>Event loop registration\<close>

definition add_rfd :: "InstData \<Rightarrow> int \<Rightarrow> loop_cb \<Rightarrow> stop + InstData" where
  "add_rfd d f c =
    (if \<not> f < MAX_FDS then Inl Assertion_failed
     else if \<not> cb (fds d f) = None then Inl Assertion_failed
     else Inr (d\<lparr>rset := (rset d)(f := True),
                 maxfds := (if f > maxfds d then f else maxfds d),
                 fds := (fds d)(f := \<lparr>lid = - 1, cb = Some c, rbuf = []\<rparr>)\<rparr>))"

text \<open>
  \<^verbatim>\<open>while(!FD_ISSET(d->maxfds, &d->rset)) d->maxfds--\<close>, counting down from \<open>n\<close>; testing
  a negative descriptor is undefined behaviour.
\<close>

fun lower_maxfds :: "(int \<Rightarrow> bool) \<Rightarrow> nat \<Rightarrow> int option" where
  "lower_maxfds rs 0 = (if rs 0 then Some 0 else None)"
| "lower_maxfds rs (Suc n) = (if rs (int (Suc n)) then Some (int (Suc n)) else lower_maxfds rs n)"

definition rm_rfd :: "InstData \<Rightarrow> int \<Rightarrow> stop + InstData" where
  "rm_rfd d f =
    (if \<not> f < MAX_FDS then Inl Assertion_failed
     else if \<not> cb (fds d f) \<noteq> None then Inl Assertion_failed
     else
       let rs = (rset d)(f := False);
           mx = (if f = maxfds d
                 then (if maxfds d < 0 then None else lower_maxfds rs (nat (maxfds d)))
                 else Some (maxfds d))
       in case mx of
            None \<Rightarrow> Inl Undefined_behaviour
          | Some m \<Rightarrow>
              Inr (d\<lparr>rset := rs, maxfds := m,
                     fds := (fds d)(f := (fds d f)\<lparr>cb := None\<rparr>)\<rparr>))"

subsection \<open>Sending commands\<close>

text \<open>
  The second half of \<^verbatim>\<open>send_cmd\<close>: write the command and a newline to the descriptor.
  A write to a descriptor that is not open fails and is logged as a warning; a write
  to an open one delivers the whole line (the loop over partial writes).
\<close>

definition write_cmd :: "InstData \<Rightarrow> int \<Rightarrow> string \<Rightarrow> InstData" where
  "write_cmd d f cmd =
    (if os_open d f then d\<lparr>wire := wire d @ [(f, cmd)]\<rparr>
     else laik_log LAIK_LL_Warning ''TCP2 write error on FD'' d)"

text \<open>
  \<^verbatim>\<open>ensure_conn\<close>.  After a successful connect it calls \<^verbatim>\<open>send_cmd(d, lid, "myid ...")\<close>,
  whose own \<^verbatim>\<open>ensure_conn\<close> returns at once because the descriptor has just been set;
  what is left of that call is the write.
\<close>

definition ensure_conn :: "InstData \<Rightarrow> int \<Rightarrow> stop + InstData" where
  "ensure_conn d l =
    (if \<not> l < MAX_PEERS then Inl Assertion_failed
     else if fd (peer d l) \<ge> 0 then Inr d
     else if \<not> port (peer d l) \<ge> 0 then Inl Assertion_failed
     else
       (case connect_to d (host (peer d l)) (port (peer d l)) of
          None \<Rightarrow> Inl Process_exit
        | Some f \<Rightarrow>
           (let d1 = d\<lparr>os_open := (os_open d)(f := True)\<rparr>;
                d2 = d1\<lparr>peer := (peer d1)(l := (peer d1 l)\<lparr>fd := f\<rparr>)\<rparr>
            in case add_rfd d2 f cb_got_bytes of
                 Inl e \<Rightarrow> Inl e
               | Inr d3 \<Rightarrow>
                  (let d4 = d3\<lparr>fds := (fds d3)(f := (fds d3 f)\<lparr>lid := l\<rparr>)\<rparr>
                   in if mylid d4 \<ge> 0
                      then Inr (write_cmd d4 (fd (peer d4 l)) (''myid '' @ dec (mylid d4)))
                      else Inr d4))))"

definition send_cmd :: "InstData \<Rightarrow> int \<Rightarrow> string \<Rightarrow> stop + InstData" where
  "send_cmd d l cmd =
    (if l \<ge> 0 then
       (case ensure_conn d l of
          Inl e \<Rightarrow> Inl e
        | Inr d' \<Rightarrow> Inr (write_cmd d' (fd (peer d' l)) cmd))
     else Inr (write_cmd d (- l) cmd))"

text \<open>Several \<^verbatim>\<open>send_cmd\<close> calls in a row; the first that stops the process ends them.\<close>

fun send_cmds :: "InstData \<Rightarrow> (int \<times> string) list \<Rightarrow> stop + InstData" where
  "send_cmds d [] = Inr d"
| "send_cmds d ((l, cmd) # rest) =
    (case send_cmd d l cmd of Inl e \<Rightarrow> Inl e | Inr d' \<Rightarrow> send_cmds d' rest)"

subsection \<open>The \<^verbatim>\<open>data\<close> command\<close>

text \<open>Bytes of the mapped memory, read and written from a byte offset on.\<close>

definition read_bytes :: "(int \<Rightarrow> byte) \<Rightarrow> int \<Rightarrow> nat \<Rightarrow> byte list" where
  "read_bytes mem a n = map (\<lambda>k. mem (a + int k)) [0 ..< n]"

definition write_bytes :: "(int \<Rightarrow> byte) \<Rightarrow> int \<Rightarrow> byte list \<Rightarrow> (int \<Rightarrow> byte)" where
  "write_bytes mem a bs =
    (\<lambda>x. if a \<le> x \<and> x < a + int (length bs) then bs ! nat (x - a) else mem x)"

text \<open>
  The loop of \<^verbatim>\<open>got_data\<close> that parses the hex bytes, from \<^verbatim>\<open>msg + i\<close> on.  \<open>acc\<close> holds
  \<^verbatim>\<open>data_in[0 .. l-1]\<close>, so \<open>l\<close> is its length; \<open>v\<close> is the value of the digits read
  since the last blank.  The end of the list is the terminating NUL.
\<close>

fun parse_hex :: "string \<Rightarrow> int \<Rightarrow> int \<Rightarrow> byte list \<Rightarrow> stop + byte list" where
  "parse_hex [] len v acc =
    (if \<not> int (length acc) < len then Inl Assertion_failed
     else Inr (acc @ [word_of_int v]))"
| "parse_hex (c # cs) len v acc =
    (if c = CHR '' '' then
       (if \<not> int (length acc) < len then Inl Assertion_failed
        else if int (length acc) + 1 = len then Inr (acc @ [word_of_int v])
        else parse_hex cs len 0 (acc @ [word_of_int v]))
     else if \<not> (of_char c \<ge> (48 :: nat) \<and> of_char c \<le> (102 :: nat)) then Inl Assertion_failed
     else if \<not> (of_char c \<le> (57 :: nat) \<or> of_char c \<ge> (97 :: nat)) then Inl Assertion_failed
     else parse_hex cs len
            (16 * v + (if of_char c > (57 :: nat) then int (of_char c) - 97 + 10
                       else int (of_char c) - 48)) acc)"

text \<open>
  The position string \<^verbatim>\<open>"(%d:%s)"\<close> that \<^verbatim>\<open>got_data\<close> builds from \<^verbatim>\<open>roff\<close> and \<^verbatim>\<open>ridx\<close>, and
  the check of a position tag: if \<^verbatim>\<open>msg[i]\<close> is an opening parenthesis the text there
  must be the position string (else the assertion fails: \<open>None\<close>), and \<open>i\<close> moves
  behind it and behind the blanks that follow.
\<close>

definition pos_tag :: "Peer \<Rightarrow> string" where
  "pos_tag p = ''('' @ dec (roff p) @ '':'' @ istr (dims (rslc p)) (ridx p) @ '')''"

definition after_tag :: "Peer \<Rightarrow> string \<Rightarrow> nat \<Rightarrow> nat option" where
  "after_tag p msg i =
    (if take 1 (drop i msg) = ''(''
     then (if take (length (pos_tag p)) (drop i msg) = pos_tag p
           then Some (length msg -
                      length (dropWhile (\<lambda>c. c = CHR '' '') (drop (i + length (pos_tag p)) msg)))
           else None)
     else Some i)"

text \<open>
  The end of \<^verbatim>\<open>got_data\<close>, once the element's bytes are in \<^verbatim>\<open>data_in\<close>: store them at
  the element's place (or reduce them into it), count the element, advance the
  traversal, and leave the event loop when the last element has come.
\<close>

definition store_element :: "InstData \<Rightarrow> int \<Rightarrow> nat \<Rightarrow> byte list \<Rightarrow> stop + InstData" where
  "store_element d l h data_in =
    (let p = peer d l;
         m = maps d h;
         idxPtr = layout_offset m (ridx p) * relemsize p
     in case start m of
          None \<Rightarrow> Inl Undefined_behaviour
        | Some mem \<Rightarrow>
           (case (if rro p = LAIK_RO_None then Inr (write_bytes mem idxPtr data_in)
                  else (case type_reduce m of
                          None \<Rightarrow> Inl Assertion_failed
                        | Some f \<Rightarrow>
                           Inr (write_bytes mem idxPtr
                                  (f (read_bytes mem idxPtr (length data_in)) data_in (rro p))))) of
              Inl e \<Rightarrow> Inl e
            | Inr mem' \<Rightarrow>
               (let d1 = d\<lparr>maps := (maps d)(h := m\<lparr>start := Some mem'\<rparr>)\<rparr>;
                    nl = next_lex (rslc p) (ridx p);
                    p1 = p\<lparr>roff := roff p + 1, ridx := snd nl\<rparr>
                in if \<not> (fst nl = (roff p1 < rcount p1)) then Inl Assertion_failed
                   else
                     let d2 = d1\<lparr>peer := (peer d1)(l := p1)\<rparr>
                     in Inr (if roff p1 = rcount p1 then d2\<lparr>exit := 1\<rparr> else d2))))"

text \<open>
  \<^verbatim>\<open>got_data(d, lid, msg)\<close>.  The checks come in the order of the source: the parse,
  the credit test, then the assertions.
\<close>

definition got_data :: "InstData \<Rightarrow> int \<Rightarrow> string \<Rightarrow> stop + InstData" where
  "got_data d l msg =
    (case sscanf_data msg of
       None \<Rightarrow> Inr (laik_log LAIK_LL_Panic ''cannot parse data command'' d)
     | Some (len, i) \<Rightarrow>
        (let p = peer d l in
         if rcount p = 0 \<or> rcount p = roff p
         then Inr (laik_log LAIK_LL_Warning ''TCP2 ignoring data without send permission'' d)
         else if \<not> relemsize p = len then Inl Assertion_failed
         else
           (case rmap p of
              None \<Rightarrow> Inl Assertion_failed
            | Some h \<Rightarrow>
               (case after_tag p msg i of
                  None \<Rightarrow> Inl Assertion_failed
                | Some i' \<Rightarrow>
                   if \<not> len < 100 then Inl Assertion_failed
                   else
                     (case parse_hex (drop i' msg) len 0 [] of
                        Inl e \<Rightarrow> Inl e
                      | Inr data_in \<Rightarrow>
                         if \<not> int (length data_in) = len then Inl Assertion_failed
                         else if \<not> int (length data_in) = relemsize p then Inl Assertion_failed
                         else store_element d l h data_in)))))"

subsection \<open>Command dispatch\<close>

text \<open>\<^verbatim>\<open>msg[0]\<close>: the first character, or NUL for the empty string.\<close>

definition first_char :: "string \<Rightarrow> char" where
  "first_char msg = (case msg of [] \<Rightarrow> CHR 0x00 | c # cs \<Rightarrow> c)"

definition help_text :: "string list" where
  "help_text =
    [''# Usage (first char of command is enough):'',
     ''#  data <len> [pos] <hex> ...   : data from a LAIK container'',
     ''#  help                         : this help text'',
     ''#  id <id> <loc> <host> <port>  : announce location id info'',
     ''#  kill                         : ask process to terminate'',
     ''#  myid <id>                    : identify your location id'',
     ''#  phase <phase>                : announce current phase'',
     ''#  quit                         : close connection'',
     ''#  register <loc> <host> <port> : request assignment of id'',
     ''#  status                       : request status output'']"

text \<open>The line \<^verbatim>\<open>"id %d %s %s %d"\<close> for peer \<open>i\<close> of the table.\<close>

definition id_line :: "InstData \<Rightarrow> int \<Rightarrow> string" where
  "id_line d i =
    ''id '' @ dec i @ '' '' @ str_or_null (location (peer d i)) @ '' '' @
    str_or_null (host (peer d i)) @ '' '' @ dec (port (peer d i))"

definition status_line :: "InstData \<Rightarrow> int \<Rightarrow> string" where
  "status_line d i =
    ''#  LID '' @ dec2 i @ '' loc '' @ [CHR 0x27] @ str_or_null (location (peer d i)) @ [CHR 0x27] @
    '' at '' @ str_or_null (host (peer d i)) @ '':'' @ dec (port (peer d i))"

text \<open>The branch of \<^verbatim>\<open>got_cmd\<close> for \<^verbatim>\<open>register <location> <host> <port>\<close>.\<close>

definition got_register :: "InstData \<Rightarrow> int \<Rightarrow> string \<Rightarrow> stop + InstData" where
  "got_register d f msg =
    (if mylid d \<noteq> 0
     then Inr (laik_log LAIK_LL_Warning ''ignoring register command, not master'' d)
     else if lid (fds d f) \<ge> 0
     then Inr (laik_log LAIK_LL_Warning ''cannot re-register; already registered'' d)
     else
       (case sscanf_register msg of
          None \<Rightarrow> Inr (laik_log LAIK_LL_Panic ''cannot parse register command'' d)
        | Some (l, h, p) \<Rightarrow>
           (let d1 = d\<lparr>maxid := maxid d + 1\<rparr>;
                n = maxid d1
            in if \<not> f \<ge> 0 then Inl Assertion_failed
               else
                 let d2 = d1\<lparr>fds := (fds d1)(f := (fds d1 f)\<lparr>lid := n\<rparr>)\<rparr>
                 in if \<not> n < MAX_PEERS then Inl Assertion_failed
                    else if \<not> port (peer d2 n) = - 1 then Inl Assertion_failed
                    else
                      let d3 = d2\<lparr>peer := (peer d2)(n := (peer d2 n)
                                  \<lparr>fd := f, port := p, host := Some h, location := Some l,
                                   rcount := 0, scount := 0\<rparr>)\<rparr>;
                          announce = ''id '' @ dec n @ '' '' @ l @ '' '' @ h @ '' '' @ dec p
                      in case send_cmds d3 (map (\<lambda>i. (i, announce)) [1 .. maxid d3]) of
                           Inl e \<Rightarrow> Inl e
                         | Inr d4 \<Rightarrow>
                            (case send_cmds d4 (map (\<lambda>i. (n, id_line d4 i)) [0 .. maxid d4 - 1]) of
                               Inl e \<Rightarrow> Inl e
                             | Inr d5 \<Rightarrow> Inr (d5\<lparr>peers := peers d5 + 1, exit := 1\<rparr>)))))"

text \<open>The branch for \<^verbatim>\<open>myid <lid>\<close>.\<close>

definition got_myid :: "InstData \<Rightarrow> int \<Rightarrow> string \<Rightarrow> stop + InstData" where
  "got_myid d f msg =
    (case sscanf_int msg of
       None \<Rightarrow> Inr (laik_log LAIK_LL_Panic ''cannot parse myid command'' d)
     | Some peerid \<Rightarrow>
        if lid (fds d f) \<ge> 0 then
          (if lid (fds d f) \<noteq> peerid
           then Inr (laik_log LAIK_LL_Panic ''got ID from peer already known with other locID'' d)
           else Inr d)
        else if mylid d = peerid
        then Inr (laik_log LAIK_LL_Panic ''got ID from peer which is my own location ID'' d)
        else if \<not> (peerid \<ge> 0 \<and> peerid < MAX_PEERS) then Inl Assertion_failed
        else if \<not> peerid \<le> maxid d then Inl Assertion_failed
        else if \<not> f \<ge> 0 then Inl Assertion_failed
        else if \<not> location (peer d peerid) \<noteq> None then Inl Assertion_failed
        else if \<not> host (peer d peerid) \<noteq> None then Inl Assertion_failed
        else if \<not> port (peer d peerid) \<ge> 0 then Inl Assertion_failed
        else Inr (d\<lparr>peer := (peer d)(peerid := (peer d peerid)\<lparr>fd := f\<rparr>),
                    fds := (fds d)(f := (fds d f)\<lparr>lid := peerid\<rparr>)\<rparr>))"

text \<open>The branch for \<^verbatim>\<open>id <lid> <location> <host> <port>\<close>, for a known sender.\<close>

definition got_id :: "InstData \<Rightarrow> string \<Rightarrow> stop + InstData" where
  "got_id d msg =
    (if mylid d = 0 then Inr (laik_log LAIK_LL_Warning ''ignoring id command as master'' d)
     else
       (case sscanf_id msg of
          None \<Rightarrow> Inr (laik_log LAIK_LL_Panic ''cannot parse id command'' d)
        | Some (n, l, h, p) \<Rightarrow>
           if \<not> (n \<ge> 0 \<and> n < MAX_PEERS) then Inl Assertion_failed
           else
             let d1 = (if mylid d < 0 \<and> my_location d = l then d\<lparr>mylid := n\<rparr> else d)
             in if location (peer d1 n) \<noteq> None then
                  (if \<not> n \<le> maxid d1 then Inl Assertion_failed
                   else if \<not> location (peer d1 n) = Some l then Inl Assertion_failed
                   else if \<not> host (peer d1 n) = Some h then Inl Assertion_failed
                   else if \<not> port (peer d1 n) = p then Inl Assertion_failed
                   else Inr d1)
                else
                  let d2 = d1\<lparr>peer := (peer d1)(n := (peer d1 n)
                              \<lparr>port := p, host := Some h, location := Some l,
                               rcount := 0, scount := 0\<rparr>)\<rparr>;
                      d3 = (if n \<noteq> mylid d2 then d2\<lparr>peers := peers d2 + 1\<rparr> else d2);
                      d4 = (if n > maxid d3 then d3\<lparr>maxid := n\<rparr> else d3)
                  in Inr d4))"

text \<open>
  \<^verbatim>\<open>got_cmd(d, fd, msg, len)\<close>: the dispatch on the first character, in the order of
  the source.
\<close>

definition got_cmd :: "InstData \<Rightarrow> int \<Rightarrow> string \<Rightarrow> stop + InstData" where
  "got_cmd d f msg =
    (let l = lid (fds d f);
         c = first_char msg;
         reply_to = (if l = - 1 then - f else l)
     in
     if c = CHR ''r'' then got_register d f msg
     else if c = CHR ''m'' then got_myid d f msg
     else if c = CHR ''h'' then
       (if \<not> f > 0 then Inl Assertion_failed
        else send_cmds d (map (\<lambda>t. (reply_to, t)) help_text))
     else if c = CHR ''k'' then
       (if \<not> f > 0 then Inl Assertion_failed
        else (case send_cmd d reply_to ''# Exiting. Bye'' of
                Inl e \<Rightarrow> Inl e
              | Inr d' \<Rightarrow> Inl Process_exit))
     else if c = CHR ''q'' then
       (if \<not> f \<ge> 0 then Inl Assertion_failed
        else (case rm_rfd (d\<lparr>os_open := (os_open d)(f := False)\<rparr>) f of
                Inl e \<Rightarrow> Inl e
              | Inr d' \<Rightarrow>
                 Inr (if l \<ge> 0 then d'\<lparr>peer := (peer d')(l := (peer d' l)\<lparr>fd := - 1\<rparr>)\<rparr>
                      else d')))
     else if c = CHR ''#'' then Inr d
     else if c = CHR ''s'' then
       (if \<not> f > 0 then Inl Assertion_failed
        else send_cmds d
               ([(reply_to, ''# My locID is '' @ dec (mylid d)),
                 (reply_to, ''# Processes in world:'')] @
                map (\<lambda>i. (reply_to, status_line d i)) [0 .. maxid d]))
     else if l < 0 then
       (let d1 = laik_log LAIK_LL_Warning ''ignoring command from unknown sender'' d
        in if \<not> f > 0 then Inl Assertion_failed
           else send_cmd d1 reply_to ''# first register, see 'help' '')
     else if c = CHR ''i'' then got_id d msg
     else if c = CHR ''p'' then
       (if mylid d = 0 then Inr (laik_log LAIK_LL_Warning ''ignoring phase command as master'' d)
        else (case sscanf_int msg of
                None \<Rightarrow> Inr (laik_log LAIK_LL_Panic ''cannot parse phase command'' d)
              | Some ph \<Rightarrow> Inr (d\<lparr>phase := ph, exit := 1\<rparr>)))
     else if c = CHR ''a'' then
       (case sscanf_int_int msg of
          None \<Rightarrow> Inr (laik_log LAIK_LL_Panic ''cannot parse allowsend command'' d)
        | Some (cnt, esize) \<Rightarrow>
           if \<not> scount (peer d l) = 0 then Inl Assertion_failed
           else Inr (d\<lparr>peer := (peer d)(l := (peer d l)\<lparr>scount := cnt, selemsize := esize\<rparr>),
                       exit := 1\<rparr>))
     else if c = CHR ''d'' then got_data d l msg
     else Inr (laik_log LAIK_LL_Warning ''TCP2 got unknown msg'' d))"

subsection \<open>Receive buffers and the event loop\<close>

text \<open>
  \<^verbatim>\<open>process_rbuf\<close> walks the buffer, turns each carriage return into a blank, and hands
  every line that ends in a newline to \<^verbatim>\<open>got_cmd\<close>; the incomplete tail stays.
  \<open>split_lines\<close> is that walk: the complete lines seen so far in \<open>cur\<close>, and the tail.
  The handler gets the C string at the start of the line, which ends at the first
  NUL.  (The handlers that format a reply into \<^verbatim>\<open>msg\<close> write into the receive buffer
  itself; the model gives every line as it was received.)
\<close>

fun split_lines :: "string \<Rightarrow> string \<Rightarrow> string list \<times> string" where
  "split_lines [] cur = ([], cur)"
| "split_lines (c # cs) cur =
    (if c = CHR 0x0A
     then (let r = split_lines cs [] in (cur # fst r, snd r))
     else split_lines cs (cur @ [if c = CHR 0x0D then CHR '' '' else c]))"

definition c_string :: "string \<Rightarrow> string" where
  "c_string s = takeWhile (\<lambda>c. c \<noteq> CHR 0x00) s"

fun got_cmds :: "InstData \<Rightarrow> int \<Rightarrow> string list \<Rightarrow> stop + InstData" where
  "got_cmds d f [] = Inr d"
| "got_cmds d f (line # rest) =
    (case got_cmd d f (c_string line) of Inl e \<Rightarrow> Inl e | Inr d' \<Rightarrow> got_cmds d' f rest)"

definition process_rbuf :: "InstData \<Rightarrow> int \<Rightarrow> stop + InstData" where
  "process_rbuf d f =
    (if \<not> (f \<ge> 0 \<and> f < MAX_FDS) then Inl Assertion_failed
     else if \<not> cb (fds d f) \<noteq> None then Inl Assertion_failed
     else
       let sp = split_lines (rbuf (fds d f)) []
       in case got_cmds d f (fst sp) of
            Inl e \<Rightarrow> Inl e
          | Inr d' \<Rightarrow> Inr (d'\<lparr>fds := (fds d')(f := (fds d' f)\<lparr>rbuf := snd sp\<rparr>)\<rparr>))"

text \<open>
  What \<^verbatim>\<open>read\<close> returns to \<^verbatim>\<open>got_bytes\<close>: an error, end of file, or bytes (at most the
  free room of the buffer is taken).
\<close>

datatype read_result = Read_error | Read_eof | Read_bytes string

text \<open>
  \<^verbatim>\<open>got_bytes\<close>.  At end of file the source stores a newline at \<^verbatim>\<open>rbuf[used]\<close> but
  leaves \<^verbatim>\<open>rbuf_used\<close> as it is, so \<^verbatim>\<open>process_rbuf\<close> does not see that newline; it then
  asserts that the buffer is empty, closes the descriptor and removes it from the
  loop.
\<close>

definition got_bytes :: "InstData \<Rightarrow> int \<Rightarrow> read_result \<Rightarrow> stop + InstData" where
  "got_bytes d f r =
    (if \<not> (f \<ge> 0 \<and> f < MAX_FDS) then Inl Assertion_failed
     else if length (rbuf (fds d f)) = RBUF_LEN then Inl Process_exit
     else
       (case r of
          Read_error \<Rightarrow> Inr d
        | Read_eof \<Rightarrow>
           (case process_rbuf d f of
              Inl e \<Rightarrow> Inl e
            | Inr d1 \<Rightarrow>
               if \<not> rbuf (fds d1 f) = [] then Inl Assertion_failed
               else rm_rfd (d1\<lparr>os_open := (os_open d1)(f := False)\<rparr>) f)
        | Read_bytes bs \<Rightarrow>
           (let used = length (rbuf (fds d f));
                d1 = d\<lparr>fds := (fds d)(f := (fds d f)
                          \<lparr>rbuf := rbuf (fds d f) @ take (RBUF_LEN - used) bs\<rparr>)\<rparr>
            in process_rbuf d1 f)))"

text \<open>\<^verbatim>\<open>got_connect\<close>; \<open>newfd\<close> is what \<^verbatim>\<open>accept\<close> returns.\<close>

definition got_connect :: "InstData \<Rightarrow> int \<Rightarrow> int \<Rightarrow> stop + InstData" where
  "got_connect d f newfd =
    (if newfd < 0 then Inl Process_exit
     else
       (case add_rfd (d\<lparr>os_open := (os_open d)(newfd := True)\<rparr>) newfd cb_got_bytes of
          Inl e \<Rightarrow> Inl e
        | Inr d1 \<Rightarrow> send_cmd d1 (- newfd) ''# Here is LAIK TCP2''))"

text \<open>
  One return of \<^verbatim>\<open>select\<close> is a list of ready descriptors in ascending order, each
  with what the system call of its callback will return: \<^verbatim>\<open>read\<close> for \<^verbatim>\<open>got_bytes\<close>,
  \<^verbatim>\<open>accept\<close> for \<^verbatim>\<open>got_connect\<close>.  The input still to come is a list of such returns;
  when it is used up \<^verbatim>\<open>select\<close> blocks for ever.
\<close>

datatype fd_event = Ev_read read_result | Ev_accept int

type_synonym wakeup = "(int \<times> fd_event) list"

fun handle_ready :: "InstData \<Rightarrow> wakeup \<Rightarrow> stop + InstData" where
  "handle_ready d [] = Inr d"
| "handle_ready d ((f, ev) # rest) =
    (if \<not> f \<le> maxfds d then handle_ready d rest
     else
       (case cb (fds d f) of
          None \<Rightarrow> Inl Assertion_failed
        | Some c \<Rightarrow>
           (case (case c of
                    cb_got_bytes \<Rightarrow>
                      got_bytes d f (case ev of Ev_read r \<Rightarrow> r | Ev_accept n \<Rightarrow> Read_error)
                  | cb_got_connect \<Rightarrow>
                      got_connect d f (case ev of Ev_accept n \<Rightarrow> n | Ev_read r \<Rightarrow> - 1)) of
              Inl e \<Rightarrow> Inl e
            | Inr d' \<Rightarrow> handle_ready d' rest)))"

fun select_loop :: "wakeup list \<Rightarrow> InstData \<Rightarrow> stop + (InstData \<times> wakeup list)" where
  "select_loop [] d = Inl Blocked"
| "select_loop (w # ws) d =
    (case handle_ready d w of
       Inl e \<Rightarrow> Inl e
     | Inr d' \<Rightarrow> if exit d' = 0 then select_loop ws d' else Inr (d', ws))"

definition run_loop :: "wakeup list \<Rightarrow> InstData \<Rightarrow> stop + (InstData \<times> wakeup list)" where
  "run_loop ws d = select_loop ws (d\<lparr>exit := 0\<rparr>)"

lemma select_loop_consumes:
  "select_loop ws d = Inr (d', ws') \<Longrightarrow> length ws' < length ws"
proof (induction ws arbitrary: d)
  case Nil
  then show ?case by simp
next
  case (Cons w ws)
  from Cons.prems obtain d1 where h: "handle_ready d w = Inr d1"
    by (auto split: sum.splits)
  show ?case
  proof (cases "exit d1 = 0")
    case True
    then have "select_loop ws d1 = Inr (d', ws')" using Cons.prems h by simp
    from Cons.IH [OF this] show ?thesis by simp
  next
    case False
    then show ?thesis using Cons.prems h by simp
  qed
qed

lemma run_loop_consumes:
  "run_loop ws d = Inr (d', ws') \<Longrightarrow> length ws' < length ws"
  unfolding run_loop_def by (rule select_loop_consumes)

subsection \<open>Sending and receiving a slice\<close>

text \<open>
  The conversion \<^verbatim>\<open>(int)\<close> of an unsigned 64-bit count: the low 32 bits, read as two's
  complement.
\<close>

definition to_int :: "nat \<Rightarrow> int" where
  "to_int n = sint (word_of_nat n :: 32 word)"





text \<open>\<^verbatim>\<open>while(p->roff < p->rcount) run_loop(d)\<close> of \<^verbatim>\<open>recv_slice\<close>.\<close>

function wait_recv :: "int \<Rightarrow> wakeup list \<Rightarrow> InstData \<Rightarrow> stop + (InstData \<times> wakeup list)" where
  "wait_recv l ws d =
    (if roff (peer d l) < rcount (peer d l)
     then (case run_loop ws d of
             Inl e \<Rightarrow> Inl e
           | Inr r \<Rightarrow> wait_recv l (snd r) (fst r))
     else Inr (d, ws))"
  by pat_completeness auto
termination
  by (relation "measure (\<lambda>(l, ws, d). length ws)") (auto dest: run_loop_consumes)

declare wait_recv.simps [simp del]








text \<open>\<^verbatim>\<open>recv_slice(slc, fromLID, toMap, ro)\<close>; \<open>h\<close> is the mapping \<^verbatim>\<open>toMap\<close> points to.\<close>

definition recv_slice ::
  "wakeup list \<Rightarrow> InstData \<Rightarrow> Laik_Slice \<Rightarrow> int \<Rightarrow> nat \<Rightarrow> Laik_ReductionOperation
     \<Rightarrow> stop + (InstData \<times> wakeup list)" where
  "recv_slice ws d slc fromLID h ro =
    (if \<not> start (maps d h) \<noteq> None then Inl Assertion_failed
     else if \<not> rcount (peer d fromLID) = 0 then Inl Assertion_failed
     else
       let p1 = (peer d fromLID)\<lparr>rcount := to_int (laik_slice_size slc)\<rparr>
       in if \<not> rcount p1 > 0 then Inl Assertion_failed
          else
            let p2 = p1\<lparr>roff := 0, relemsize := elemsize (maps d h), rmap := Some h,
                        rslc := slc, ridx := slc_from slc, rro := ro\<rparr>;
                d1 = d\<lparr>peer := (peer d)(fromLID := p2)\<rparr>
            in case send_cmd d1 fromLID
                      (''allowsend '' @ dec (rcount p2) @ '' '' @ dec (relemsize p2)) of
                 Inl e \<Rightarrow> Inl e
               | Inr d2 \<Rightarrow>
                  (case wait_recv fromLID ws d2 of
                     Inl e \<Rightarrow> Inl e
                   | Inr r \<Rightarrow>
                      Inr ((fst r)\<lparr>peer := (peer (fst r))
                              (fromLID := (peer (fst r) fromLID)\<lparr>rcount := 0\<rparr>)\<rparr>, snd r)))"

subsection \<open>An example state\<close>

text \<open>
  Process 1 of a world of three: the master (location id 0) is connected on descriptor
  4, process 2 on descriptor 5, descriptor 3 listens.  Mapping 0 is a one-dimensional
  container of two-byte elements whose layout places index \<open>i\<close> at offset \<open>i\<close>.
\<close>

definition no_peer :: Peer where
  "no_peer = \<lparr>fd = - 1, port = - 1, host = None, location = None, rcount = 0, relemsize = 0,
              roff = 0, rmap = None,
              rslc = \<lparr>dims = 1, slc_from = \<lparr>i0 = 0, i1 = 0, i2 = 0\<rparr>,
                      slc_to = \<lparr>i0 = 0, i1 = 0, i2 = 0\<rparr>\<rparr>,
              ridx = \<lparr>i0 = 0, i1 = 0, i2 = 0\<rparr>, rro = LAIK_RO_None, scount = 0, selemsize = 0\<rparr>"

definition no_fd :: FDState where
  "no_fd = \<lparr>lid = - 1, cb = None, rbuf = []\<rparr>"

definition example_map :: Laik_Mapping where
  "example_map = \<lparr>start = Some (\<lambda>a. if a = 8 then 0x0a else if a = 11 then 0xff else 0),
                  layout_offset = (\<lambda>idx. uint (i0 idx)), elemsize = 2, type_reduce = None\<rparr>"

definition example_peers :: "int \<Rightarrow> Peer" where
  "example_peers =
    (\<lambda>i. if i = 0 then no_peer\<lparr>fd := 4, port := 7777, host := Some ''home'', location := Some ''home:1''\<rparr>
         else if i = 1 then no_peer\<lparr>port := 4001, host := Some ''n1'', location := Some ''n1:7''\<rparr>
         else if i = 2 then no_peer\<lparr>fd := 5, port := 4002, host := Some ''n2'', location := Some ''n2:9''\<rparr>
         else no_peer)"

definition example_fds :: "int \<Rightarrow> FDState" where
  "example_fds =
    (\<lambda>f. if f = 3 then \<lparr>lid = - 1, cb = Some cb_got_connect, rbuf = []\<rparr>
         else if f = 4 then \<lparr>lid = 0, cb = Some cb_got_bytes, rbuf = []\<rparr>
         else if f = 5 then \<lparr>lid = 2, cb = Some cb_got_bytes, rbuf = []\<rparr>
         else no_fd)"

definition example_d :: InstData where
  "example_d =
    \<lparr>mylid = 1, my_location = ''n1:7'', listenfd = 3, listenport = 4001, maxid = 2, phase = 0,
     maxfds = 5, rset = (\<lambda>f. f = 3 \<or> f = 4 \<or> f = 5), exit = 0, fds = example_fds,
     peers = 2, peer = example_peers, maps = (\<lambda>h. example_map),
     os_open = (\<lambda>f. f = 3 \<or> f = 4 \<or> f = 5),
     connect_to = (\<lambda>h p. if h = Some ''n2'' \<and> p = 4002 then Some 6 else None),
     wire = [], logs = []\<rparr>"



subsection \<open>Notions used to state the properties of the backend\<close>

text \<open>
  The receive counters of a peer are consistent: nothing is outstanding, or the
  progress lies between 0 and the granted count.
\<close>

definition recv_inv :: "Peer \<Rightarrow> bool" where
  "recv_inv p = (rcount p = 0 \<or> (0 \<le> roff p \<and> roff p \<le> rcount p))"







text \<open>
  The example state after process 2 has closed its connection (\<^verbatim>\<open>read\<close> on descriptor 5
  returns end of file), and after process 2 has sent \<^verbatim>\<open>quit\<close> instead.
\<close>

definition after_eof :: InstData where
  "after_eof = projr (got_bytes example_d 5 Read_eof)"

definition after_quit :: InstData where
  "after_quit = projr (got_cmd example_d 5 ''quit'')"





text \<open>Peer \<open>l\<close> is connected, on a descriptor that is open.\<close>

definition connected :: "InstData \<Rightarrow> int \<Rightarrow> bool" where
  "connected d l =
    (0 \<le> l \<and> l < MAX_PEERS \<and> 0 \<le> fd (peer d l) \<and> os_open d (fd (peer d l)))"



text \<open>The example state once that grant has been handled.\<close>

definition example_granted :: InstData where
  "example_granted =
    example_d\<lparr>exit := 1,
              peer := (peer example_d)(2 := (peer example_d 2)\<lparr>scount := 2, selemsize := 2\<rparr>)\<rparr>"

section \<open>Containers: switching the partitioning (\<^verbatim>\<open>data.c\<close>)\<close>

subsection \<open>Element values\<close>

text \<open>
  The value of a \<^verbatim>\<open>double\<close> or \<^verbatim>\<open>float\<close> object: a finite number or an infinity.  The
  numbers are reals: the rounding of a literal to the nearest representable value is
  left out (0 and 1 are exact; \<^verbatim>\<open>9e99\<close> is rounded in its 17th digit).  An element of
  a container is such a value for \<^verbatim>\<open>double\<close> and \<^verbatim>\<open>float\<close> containers and raw bytes
  otherwise; memory is read and written by element.
\<close>

datatype fp = Finite real | PlusInf | MinusInf

datatype elem = Flt fp | Raw "byte list"

text \<open>The largest finite values of the two types (\<^verbatim>\<open>DBL_MAX\<close>, \<^verbatim>\<open>FLT_MAX\<close>).\<close>

definition DBL_MAX :: real where
  "DBL_MAX = (2 ^ 53 - 1) * 2 ^ 971"

definition FLT_MAX :: real where
  "FLT_MAX = (2 ^ 24 - 1) * 2 ^ 104"

text \<open>
  A \<^verbatim>\<open>double\<close> constant assigned to a \<^verbatim>\<open>float\<close> variable: a value beyond the range of
  \<^verbatim>\<open>float\<close> becomes an infinity (IEEE 754; the C standard leaves it undefined).
\<close>

definition double_to_float :: "real \<Rightarrow> fp" where
  "double_to_float x =
    (if x > FLT_MAX then PlusInf else if x < - FLT_MAX then MinusInf else Finite x)"

subsection \<open>Data model\<close>

datatype Laik_Type = laik_Char | laik_Int32 | laik_Int64 | laik_Float | laik_Double

datatype Laik_AccessBehavior =
  LAIK_AB_ReadWrite | LAIK_AB_Sum | LAIK_AB_Prod | LAIK_AB_Min | LAIK_AB_Max

text \<open>
  The \<^verbatim>\<open>Laik_Mapping\<close> of \<^verbatim>\<open>data.c\<close>: the number of elements, the index of the first one,
  and the memory at \<^verbatim>\<open>base\<close> by element offset (\<open>None\<close> for a null pointer).
\<close>

record Laik_DataMapping =
  map_count :: uint64
  baseIdx :: Laik_Index
  base :: "(nat \<Rightarrow> elem) option"

text \<open>
  The lists of a \<^verbatim>\<open>Laik_Transition\<close> that \<^verbatim>\<open>data.c\<close> reads: \<^verbatim>\<open>local[0 .. localCount-1]\<close>,
  and \<^verbatim>\<open>init[i]\<close> paired with \<^verbatim>\<open>initRedOp[i]\<close> for \<open>i < initCount\<close>.
\<close>

record Laik_Transition =
  local_slices :: "Laik_Slice list"
  init_slices :: "(Laik_Slice \<times> Laik_AccessBehavior) list"

text \<open>
  A \<^verbatim>\<open>Laik_Data\<close>: element type and size, the dimension of its space, the borders of
  this process in the active partitioning and the active mapping (\<open>None\<close> when null).
\<close>

record Laik_Data =
  data_type :: Laik_Type
  data_elemsize :: int
  space_dims :: nat
  activePartitioning :: "Laik_Slice option"
  activeMapping :: "Laik_DataMapping option"

subsection \<open>\<^verbatim>\<open>allocMap\<close>, \<^verbatim>\<open>copyMap\<close>, \<^verbatim>\<open>initMap\<close>\<close>

text \<open>
  \<^verbatim>\<open>allocMap(d, p, l)\<close>; \<open>brd\<close> are the borders of this process in \<open>p\<close>, \<open>malloc_res\<close> is
  what \<^verbatim>\<open>malloc\<close> returns when it is called: the fresh memory with whatever it holds,
  or \<open>None\<close> on failure (which the source does not check).
\<close>

definition allocMap :: "Laik_Slice \<Rightarrow> (nat \<Rightarrow> elem) option \<Rightarrow> Laik_DataMapping" where
  "allocMap brd malloc_res =
    (let e0 = i0 (slc_to brd) - i0 (slc_from brd);
         e1 = i1 (slc_to brd) - i1 (slc_from brd);
         e2 = i2 (slc_to brd) - i2 (slc_from brd);
         cnt = (if dims brd = 3 then 1 * e2 * e1 * e0
                else if dims brd = 2 then 1 * e1 * e0
                else if dims brd = 1 then 1 * e0
                else 1)
     in \<lparr>map_count = cnt, baseIdx = slc_from brd,
         base = (if cnt = 0 then None else malloc_res)\<rparr>)"

text \<open>\<^verbatim>\<open>int count = s->to.i[0] - s->from.i[0]\<close>: the low 32 bits of the difference, signed.\<close>

definition slice_count :: "Laik_Slice \<Rightarrow> int" where
  "slice_count s = sint (ucast (i0 (slc_to s) - i0 (slc_from s)) :: 32 word)"

text \<open>
  \<^verbatim>\<open>memcpy\<close> of \<open>n\<close> elements from offset \<open>a\<close> of \<open>src\<close> to offset \<open>b\<close> of \<open>dst\<close> (two separate
  allocations).
\<close>

definition memcpy_elems ::
  "(nat \<Rightarrow> elem) \<Rightarrow> nat \<Rightarrow> (nat \<Rightarrow> elem) \<Rightarrow> nat \<Rightarrow> nat \<Rightarrow> (nat \<Rightarrow> elem)" where
  "memcpy_elems dst b src a n = (\<lambda>k. if b \<le> k \<and> k < b + n then src (a + (k - b)) else dst k)"

text \<open>
  The body of the loop of \<^verbatim>\<open>copyMap\<close> for one local slice.  The byte count
  \<^verbatim>\<open>count * d->elemsize\<close> is an \<^verbatim>\<open>int\<close> product; overflowing it, and copying from or to
  memory outside the two mappings (or through a null \<^verbatim>\<open>base\<close>), is undefined behaviour.
\<close>

definition copy_local ::
  "int \<Rightarrow> Laik_DataMapping \<Rightarrow> Laik_DataMapping \<Rightarrow> Laik_Slice \<Rightarrow> stop + Laik_DataMapping" where
  "copy_local esize fromMap toMap s =
    (let cnt = slice_count s;
         fromStart = i0 (slc_from s) - i0 (baseIdx fromMap);
         toStart = i0 (slc_from s) - i0 (baseIdx toMap)
     in if cnt > 0 then
          (if \<not> cnt * esize < 2 ^ 31 then Inl Undefined_behaviour
           else
             (case (base fromMap, base toMap) of
                (Some src, Some dst) \<Rightarrow>
                  if unat fromStart + nat cnt \<le> unat (map_count fromMap) \<and>
                     unat toStart + nat cnt \<le> unat (map_count toMap)
                  then Inr (toMap\<lparr>base := Some (memcpy_elems dst (unat toStart) src
                                                 (unat fromStart) (nat cnt))\<rparr>)
                  else Inl Undefined_behaviour
              | _ \<Rightarrow> Inl Undefined_behaviour))
        else Inr toMap)"

fun copy_locals ::
  "int \<Rightarrow> Laik_DataMapping \<Rightarrow> Laik_DataMapping \<Rightarrow> Laik_Slice list \<Rightarrow> stop + Laik_DataMapping" where
  "copy_locals esize fromMap toMap [] = Inr toMap"
| "copy_locals esize fromMap toMap (s # ss) =
    (case copy_local esize fromMap toMap s of
       Inl e \<Rightarrow> Inl e
     | Inr toMap' \<Rightarrow> copy_locals esize fromMap toMap' ss)"

text \<open>
  \<^verbatim>\<open>copyMap(t, toMap, fromMap)\<close> for the container \<open>d\<close> both mappings belong to;
  \<open>fromMap\<close> is \<open>None\<close> when the pointer is null.
\<close>

definition copyMap ::
  "Laik_Data \<Rightarrow> Laik_Transition \<Rightarrow> Laik_DataMapping \<Rightarrow> Laik_DataMapping option
     \<Rightarrow> stop + Laik_DataMapping" where
  "copyMap d t toMap fromMap =
    (if \<not> length (local_slices t) > 0 then Inl Assertion_failed
     else
       (case fromMap of
          None \<Rightarrow> Inl Undefined_behaviour
        | Some fm \<Rightarrow>
           if map_count toMap = 0 then Inr toMap
           else if base fm = None then
             (if \<not> map_count fm = 0 then Inl Assertion_failed else Inr toMap)
           else if \<not> space_dims d = 1 then Inl Assertion_failed
           else copy_locals (data_elemsize d) fm toMap (local_slices t)))"

text \<open>
  The loop \<^verbatim>\<open>for(int j = s->from.i[0]; j < s->to.i[0]; j++) dbase[j] = v\<close> of \<^verbatim>\<open>initMap\<close>.
  \<open>j\<close> is a C \<^verbatim>\<open>int\<close>, compared with the unsigned 64-bit bound after conversion; \<open>cnt\<close> is
  the number of elements of the mapping.  The element written is \<^verbatim>\<open>dbase[j]\<close>, the
  \<open>j\<close>-th element from \<^verbatim>\<open>base\<close>, which lies in the mapping only for \<open>0 \<le> j < cnt\<close>.
\<close>

function init_loop :: "(nat \<Rightarrow> elem) \<Rightarrow> nat \<Rightarrow> elem \<Rightarrow> int \<Rightarrow> uint64 \<Rightarrow> stop + (nat \<Rightarrow> elem)" where
  "init_loop mem cnt v j hi =
    (if (word_of_int j :: uint64) < hi then
       (if j < 0 \<or> \<not> nat j < cnt then Inl Undefined_behaviour
        else if \<not> j < 2 ^ 31 - 1 then Inl Undefined_behaviour
        else init_loop (mem(nat j := v)) cnt v (j + 1) hi)
     else Inr mem)"
  by pat_completeness auto
termination
  by (relation "measure (\<lambda>(mem, cnt, v, j, hi). nat (2 ^ 31 - j))") auto

declare init_loop.simps [simp del]

text \<open>The value \<^verbatim>\<open>initMap\<close> picks for a reduction, as a \<^verbatim>\<open>double\<close>; no value: \<^verbatim>\<open>assert(0)\<close>.\<close>

definition init_value :: "Laik_AccessBehavior \<Rightarrow> real option" where
  "init_value op =
    (case op of
       LAIK_AB_Sum \<Rightarrow> Some 0
     | LAIK_AB_Prod \<Rightarrow> Some 1
     | LAIK_AB_Min \<Rightarrow> Some (9 * 10 ^ 99)
     | LAIK_AB_Max \<Rightarrow> Some (- (9 * 10 ^ 99))
     | _ \<Rightarrow> None)"

text \<open>The body of the loop of \<^verbatim>\<open>initMap\<close> for one init entry.\<close>

definition init_entry ::
  "Laik_Data \<Rightarrow> Laik_DataMapping \<Rightarrow> Laik_Slice \<times> Laik_AccessBehavior \<Rightarrow> stop + Laik_DataMapping" where
  "init_entry d toMap e =
    (let s = fst e; op = snd e in
     if data_type d = laik_Double \<or> data_type d = laik_Float then
       (case init_value op of
          None \<Rightarrow> Inl Assertion_failed
        | Some x \<Rightarrow>
           (let v = (if data_type d = laik_Double then Flt (Finite x) else Flt (double_to_float x));
                j0 = sint (ucast (i0 (slc_from s)) :: 32 word)
            in case base toMap of
                 None \<Rightarrow>
                   (if (word_of_int j0 :: uint64) < i0 (slc_to s) then Inl Undefined_behaviour
                    else Inr toMap)
               | Some mem \<Rightarrow>
                   (case init_loop mem (unat (map_count toMap)) v j0 (i0 (slc_to s)) of
                      Inl x \<Rightarrow> Inl x
                    | Inr mem' \<Rightarrow> Inr (toMap\<lparr>base := Some mem'\<rparr>))))
     else Inl Assertion_failed)"

fun init_entries ::
  "Laik_Data \<Rightarrow> Laik_DataMapping \<Rightarrow> (Laik_Slice \<times> Laik_AccessBehavior) list
     \<Rightarrow> stop + Laik_DataMapping" where
  "init_entries d toMap [] = Inr toMap"
| "init_entries d toMap (e # es) =
    (case init_entry d toMap e of
       Inl x \<Rightarrow> Inl x
     | Inr toMap' \<Rightarrow> init_entries d toMap' es)"

text \<open>\<^verbatim>\<open>initMap(t, toMap)\<close> for the container \<open>d\<close> of the mapping.\<close>

definition initMap :: "Laik_Data \<Rightarrow> Laik_Transition \<Rightarrow> Laik_DataMapping \<Rightarrow> stop + Laik_DataMapping" where
  "initMap d t toMap =
    (if \<not> length (init_slices t) > 0 then Inl Assertion_failed
     else if map_count toMap = 0 then Inr toMap
     else if \<not> space_dims d = 1 then Inl Assertion_failed
     else init_entries d toMap (init_slices t))"

subsection \<open>\<^verbatim>\<open>laik_set_partitioning\<close>\<close>

text \<open>
  \<^verbatim>\<open>laik_set_partitioning(d, p)\<close>.  What the source gets from code outside the sources
  is an input of the model: \<open>brd\<close>, the borders of this process that
  \<^verbatim>\<open>laik_update_partitioning\<close> computes for \<open>p\<close>; \<open>t\<close>, the transition that
  \<^verbatim>\<open>laik_calc_transitionP\<close> computes; \<open>exec\<close>, the backend's \<^verbatim>\<open>execTransition\<close>, which reads
  the container and fills the new mapping; and \<open>malloc_res\<close>, see \<open>allocMap\<close>.  The old
  mapping is freed and the new one becomes active.
\<close>

definition laik_set_partitioning ::
  "Laik_Data \<Rightarrow> Laik_Slice \<Rightarrow> (nat \<Rightarrow> elem) option \<Rightarrow> Laik_Transition
     \<Rightarrow> (Laik_Data \<Rightarrow> Laik_Transition \<Rightarrow> Laik_DataMapping \<Rightarrow> stop + Laik_DataMapping)
     \<Rightarrow> stop + Laik_Data" where
  "laik_set_partitioning d brd malloc_res t exec =
    (let toMap = allocMap brd malloc_res in
     case exec d t toMap of
       Inl e \<Rightarrow> Inl e
     | Inr toMap1 \<Rightarrow>
        (case (if length (local_slices t) > 0 then copyMap d t toMap1 (activeMapping d)
               else Inr toMap1) of
           Inl e \<Rightarrow> Inl e
         | Inr toMap2 \<Rightarrow>
            (case (if length (init_slices t) > 0 then initMap d t toMap2 else Inr toMap2) of
               Inl e \<Rightarrow> Inl e
             | Inr toMap3 \<Rightarrow>
                Inr (d\<lparr>activePartitioning := Some brd, activeMapping := Some toMap3\<rparr>))))"

text \<open>A backend call that has nothing to transfer and leaves the new mapping as it is.\<close>

definition exec_nothing :: "Laik_Data \<Rightarrow> Laik_Transition \<Rightarrow> Laik_DataMapping \<Rightarrow> stop + Laik_DataMapping" where
  "exec_nothing d t toMap = Inr toMap"

subsection \<open>Example containers\<close>

text \<open>The one-dimensional slice \<open>[lo, hi)\<close>.\<close>

definition slice_1d :: "uint64 \<Rightarrow> uint64 \<Rightarrow> Laik_Slice" where
  "slice_1d lo hi = \<lparr>dims = 1, slc_from = \<lparr>i0 = lo, i1 = 0, i2 = 0\<rparr>,
                     slc_to = \<lparr>i0 = hi, i1 = 0, i2 = 0\<rparr>\<rparr>"

text \<open>
  A container of \<^verbatim>\<open>char\<close> over \<open>[0, 2^31)\<close>, all of it on this process, every element 1;
  freshly allocated memory that holds 0 everywhere; and the transition to a
  partitioning with the same borders, which keeps the whole slice.
\<close>

definition big_slice :: Laik_Slice where
  "big_slice = slice_1d 0 (2 ^ 31)"

definition big_data :: Laik_Data where
  "big_data =
    \<lparr>data_type = laik_Char, data_elemsize = 1, space_dims = 1,
     activePartitioning = Some big_slice,
     activeMapping = Some \<lparr>map_count = 2 ^ 31, baseIdx = \<lparr>i0 = 0, i1 = 0, i2 = 0\<rparr>,
                           base = Some (\<lambda>k. Raw [1])\<rparr>\<rparr>"

definition fresh_zero :: "nat \<Rightarrow> elem" where
  "fresh_zero = (\<lambda>k. Raw [0])"

definition keep_all :: Laik_Transition where
  "keep_all = \<lparr>local_slices = [big_slice], init_slices = []\<rparr>"

text \<open>
  A container of \<^verbatim>\<open>double\<close> with a new mapping for the indexes \<open>[lo, hi)\<close>, and the
  transition that initializes \<open>[lo, hi)\<close> for the reduction \<open>op\<close>.
\<close>

definition double_data :: Laik_Data where
  "double_data =
    \<lparr>data_type = laik_Double, data_elemsize = 8, space_dims = 1,
     activePartitioning = None, activeMapping = None\<rparr>"

definition init_only :: "uint64 \<Rightarrow> uint64 \<Rightarrow> Laik_AccessBehavior \<Rightarrow> Laik_Transition" where
  "init_only lo hi op = \<lparr>local_slices = [], init_slices = [(slice_1d lo hi, op)]\<rparr>"

definition fresh_map :: "uint64 \<Rightarrow> uint64 \<Rightarrow> Laik_DataMapping" where
  "fresh_map lo hi = allocMap (slice_1d lo hi) (Some (\<lambda>k. Flt (Finite 5)))"

subsection \<open>Notions used to state what the local copy keeps\<close>

text \<open>
  Index \<open>i\<close> lies in the one-dimensional slice \<open>s\<close>; the slice lies within the indexes
  that the mapping \<open>m\<close> holds; and the element that \<open>m\<close> holds for index \<open>i\<close>.
\<close>

definition in_slice_1d :: "uint64 \<Rightarrow> Laik_Slice \<Rightarrow> bool" where
  "in_slice_1d i s = (i0 (slc_from s) \<le> i \<and> i < i0 (slc_to s))"

definition slice_within :: "Laik_Slice \<Rightarrow> Laik_DataMapping \<Rightarrow> bool" where
  "slice_within s m =
    (i0 (slc_from s) \<le> i0 (slc_to s) \<and>
     unat (i0 (slc_from s) - i0 (baseIdx m)) + unat (i0 (slc_to s) - i0 (slc_from s))
       \<le> unat (map_count m))"

definition elem_at :: "Laik_DataMapping \<Rightarrow> uint64 \<Rightarrow> elem" where
  "elem_at m i = (case base m of None \<Rightarrow> Raw [] | Some mem \<Rightarrow> mem (unat (i - i0 (baseIdx m))))"

text \<open>
  Slot \<open>k\<close> of the new mapping \<open>toMap\<close> holds what the old mapping \<open>fromMap\<close>, with memory
  \<open>src\<close>, holds for the same index.
\<close>

definition holds_old :: "(nat \<Rightarrow> elem) \<Rightarrow> Laik_DataMapping \<Rightarrow> Laik_DataMapping \<Rightarrow> nat \<Rightarrow> bool" where
  "holds_old src fromMap toMap k =
    (case base toMap of
       None \<Rightarrow> False
     | Some dst \<Rightarrow>
        dst k = src (unat (word_of_nat k + i0 (baseIdx toMap) - i0 (baseIdx fromMap))))"

section \<open>The receive traversal\<close>


lemma unat_off:
  fixes a b :: uint64
  assumes "a \<le> b" "j \<le> extent a b"
  shows "unat (a + of_nat j) = unat a + j"
proof -
  have e: "extent a b = unat b - unat a" using assms(1) by (simp add: extent_def unat_sub)
  have le: "unat a \<le> unat b" using assms(1) by (simp add: word_le_nat_alt)
  have ub: "unat b < 2 ^ 64" using unsigned_less [of b, where ?'a = nat] by simp
  have j: "j < 2 ^ 64" using assms(2) e ub by linarith
  have uj: "unat (of_nat j :: uint64) = j" using j by (simp add: unat_of_nat)
  have "unat a + unat (of_nat j :: uint64) < 2 ^ LENGTH(64)" using uj assms(2) e le ub by simp
  then have "unat (a + of_nat j) = unat a + unat (of_nat j :: uint64)"
    by (simp only: unat_add_lem)
  then show ?thesis using uj by simp
qed

lemma w_step:
  fixes a b :: uint64
  assumes "a < b" "j < extent a b"
  shows "(a + of_nat j + 1 < b) = (Suc j < extent a b)"
proof -
  have ab: "a \<le> b" using assms(1) by simp
  have e: "extent a b = unat b - unat a" using ab by (simp add: extent_def unat_sub)
  have "unat (a + of_nat (Suc j)) = unat a + Suc j"
    using unat_off [OF ab, of "Suc j"] assms(2) by simp
  moreover have "a + of_nat j + 1 = a + of_nat (Suc j)" by simp
  ultimately have "unat (a + of_nat j + 1) = unat a + Suc j" by (simp only:)
  then show ?thesis using e assms by (simp add: word_less_nat_alt) linarith
qed

lemma w_end:
  fixes a b :: uint64
  shows "a + of_nat (extent a b) = b"
  by (simp add: extent_def)

lemma size_ext: "laik_slice_size slc = ext0 slc * ext1 slc * ext2 slc"
  by (simp add: laik_slice_size_def ext0_def ext1_def ext2_def)

lemma lex_at_0: "lex_at slc 0 0 0 = slc_from slc"
  by (simp add: lex_at_def)

lemma w_last:
  fixes a b :: uint64
  assumes "a < b" "j < extent a b" "\<not> Suc j < extent a b"
  shows "a + of_nat j + 1 = b"
proof -
  have "Suc j = extent a b" using assms by simp
  then have "a + of_nat (Suc j) = b" using w_end [of a b] by simp
  moreover have "a + of_nat j + 1 = a + of_nat (Suc j)" by simp
  ultimately show ?thesis by (simp only:)
qed

lemma w_suc: "(a::uint64) + of_nat j + 1 = a + of_nat (Suc j)"
  by simp

lemma next_lex_at:
  assumes ne: "slice_nonempty slc" and d: "dims slc = 1 \<or> dims slc = 2 \<or> dims slc = 3"
    and a: "a < ext0 slc" and b: "b < ext1 slc" and c: "c < ext2 slc"
  shows "next_lex slc (lex_at slc a b c) =
    (if Suc a < ext0 slc then (True, lex_at slc (Suc a) b c)
     else if Suc b < ext1 slc then (True, lex_at slc 0 (Suc b) c)
     else if Suc c < ext2 slc then (True, lex_at slc 0 0 (Suc c))
     else (False, lex_end slc))"
proof -
  have f0: "i0 (slc_from slc) < i0 (slc_to slc)" using ne by (simp add: slice_nonempty_def)
  have a': "a < extent (i0 (slc_from slc)) (i0 (slc_to slc))" using a by (simp add: ext0_def)
  note s0 = w_step [OF f0 a'] and l0 = w_last [OF f0 a']
  consider "dims slc = 1" | "dims slc = 2" | "dims slc = 3" using d by blast
  then show ?thesis
  proof cases
    case 1
    then have "b = 0" "c = 0" using b c by (simp_all add: ext1_def ext2_def)
    then show ?thesis using 1 s0 l0
      by (simp add: next_lex_def lex_at_def lex_end_def ext0_def ext1_def ext2_def Let_def
          del: of_nat_Suc) (simp add: Laik_Index.equality)
  next
    case 2
    then have f1: "i1 (slc_from slc) < i1 (slc_to slc)" using ne by (simp add: slice_nonempty_def)
    have b': "b < extent (i1 (slc_from slc)) (i1 (slc_to slc))" using b 2 by (simp add: ext1_def)
    note s1 = w_step [OF f1 b'] and l1 = w_last [OF f1 b']
    have "c = 0" using c 2 by (simp add: ext2_def)
    then show ?thesis using 2 s0 l0 s1 l1
      by (simp add: next_lex_def lex_at_def lex_end_def ext0_def ext1_def ext2_def Let_def
          del: of_nat_Suc) (simp add: Laik_Index.equality)
  next
    case 3
    then have f1: "i1 (slc_from slc) < i1 (slc_to slc)" 
      and f2: "i2 (slc_from slc) < i2 (slc_to slc)" using ne by (simp_all add: slice_nonempty_def)
    have b': "b < extent (i1 (slc_from slc)) (i1 (slc_to slc))" using b 3 by (simp add: ext1_def)
    have c': "c < extent (i2 (slc_from slc)) (i2 (slc_to slc))" using c 3 by (simp add: ext2_def)
    note s1 = w_step [OF f1 b'] and l1 = w_last [OF f1 b']
    note s2 = w_step [OF f2 c'] and l2 = w_last [OF f2 c']
    show ?thesis using 3 s0 l0 s1 l1 s2 l2
      by (simp add: next_lex_def lex_at_def lex_end_def ext0_def ext1_def ext2_def Let_def
          del: of_nat_Suc) (simp add: Laik_Index.equality)
  qed
qed



lemma rank_bound:
  fixes a b c n0 n1 n2 :: nat
  assumes "a < n0" "b < n1" "c < n2"
  shows "a + n0 * (b + n1 * c) < n0 * n1 * n2"
proof -
  have "b + n1 * c < n1 * Suc c" using assms(2) by simp
  also have "\<dots> \<le> n1 * n2" using assms(3) by (intro mult_le_mono2) simp
  finally have bc: "Suc (b + n1 * c) \<le> n1 * n2" by simp
  have "a + n0 * (b + n1 * c) < n0 * Suc (b + n1 * c)" using assms(1) by simp
  also have "\<dots> \<le> n0 * (n1 * n2)" using bc by (rule mult_le_mono2)
  finally show ?thesis by (simp add: mult.assoc)
qed

lemma rank_last:
  fixes a b c n0 n1 n2 :: nat
  assumes "a < n0" "b < n1" "c < n2" "\<not> Suc a < n0" "\<not> Suc b < n1" "\<not> Suc c < n2"
  shows "Suc (a + n0 * (b + n1 * c)) = n0 * n1 * n2"
proof -
  have "n0 = Suc a" "n1 = Suc b" "n2 = Suc c" using assms by simp_all
  then show ?thesis by (simp add: algebra_simps)
qed

lemma extents_pos:
  assumes "slice_nonempty slc"
  shows "0 < ext0 slc" "0 < ext1 slc" "0 < ext2 slc"
  using assms
  by (auto simp: slice_nonempty_def ext0_def ext1_def ext2_def extent_def unat_gt_0
           split: if_splits)

lemma lex_steps_inv:
  assumes ne: "slice_nonempty slc" and d: "dims slc = 1 \<or> dims slc = 2 \<or> dims slc = 3"
  shows "k < laik_slice_size slc \<Longrightarrow>
     \<exists>a b c. a < ext0 slc \<and> b < ext1 slc \<and> c < ext2 slc \<and> lex_rank slc a b c = k \<and>
        snd (lex_steps slc k) = lex_at slc a b c"
proof (induction k)
  case 0
  show ?case using extents_pos [OF ne]
    by (intro exI [of _ 0]) (simp add: lex_rank_def lex_at_0)
next
  case (Suc k)
  then obtain a b c where a: "a < ext0 slc" and b: "b < ext1 slc" and c: "c < ext2 slc"
    and r: "lex_rank slc a b c = k" and s: "snd (lex_steps slc k) = lex_at slc a b c"
    by auto
  note nl = next_lex_at [OF ne d a b c]
  have notlast: "Suc a < ext0 slc \<or> Suc b < ext1 slc \<or> Suc c < ext2 slc"
  proof (rule ccontr)
    assume "\<not> ?thesis"
    then have "Suc (lex_rank slc a b c) = laik_slice_size slc"
      using rank_last [OF a b c] by (simp add: lex_rank_def size_ext)
    then show False using Suc.prems r by simp
  qed
  consider (A) "Suc a < ext0 slc" | (B) "\<not> Suc a < ext0 slc" "Suc b < ext1 slc"
    | (C) "\<not> Suc a < ext0 slc" "\<not> Suc b < ext1 slc" "Suc c < ext2 slc"
    using notlast by blast
  then show ?case
  proof cases
    case A
    then show ?thesis using nl s r b c
      by (intro exI [of _ "Suc a"] exI [of _ b] exI [of _ c]) (simp add: lex_rank_def)
  next
    case B
    then have "ext0 slc = Suc a" using a by simp
    then show ?thesis using nl s r B c extents_pos [OF ne]
      by (intro exI [of _ 0] exI [of _ "Suc b"] exI [of _ c]) (simp add: lex_rank_def algebra_simps)
  next
    case C
    then have "ext0 slc = Suc a" "ext1 slc = Suc b" using a b by simp_all
    then show ?thesis using nl s r C extents_pos [OF ne]
      by (intro exI [of _ 0] exI [of _ 0] exI [of _ "Suc c"]) (simp add: lex_rank_def algebra_simps)
  qed
qed

lemma lex_steps_next:
  assumes ne: "slice_nonempty slc" and d: "dims slc = 1 \<or> dims slc = 2 \<or> dims slc = 3"
    and k: "k < laik_slice_size slc"
  shows "fst (lex_steps slc (Suc k)) = (Suc k < laik_slice_size slc)"
    and "Suc k = laik_slice_size slc \<Longrightarrow> snd (lex_steps slc (Suc k)) = lex_end slc"
proof -
  obtain a b c where a: "a < ext0 slc" and b: "b < ext1 slc" and c: "c < ext2 slc"
    and r: "lex_rank slc a b c = k" and s: "snd (lex_steps slc k) = lex_at slc a b c"
    using lex_steps_inv [OF ne d k] by auto
  note nl = next_lex_at [OF ne d a b c]
  have iff: "(Suc k < laik_slice_size slc) =
     (Suc a < ext0 slc \<or> Suc b < ext1 slc \<or> Suc c < ext2 slc)"
  proof
    assume "Suc k < laik_slice_size slc"
    show "Suc a < ext0 slc \<or> Suc b < ext1 slc \<or> Suc c < ext2 slc"
    proof (rule ccontr)
      assume "\<not> ?thesis"
      then have "Suc (lex_rank slc a b c) = laik_slice_size slc"
        using rank_last [OF a b c] by (simp add: lex_rank_def size_ext)
      then show False using \<open>Suc k < laik_slice_size slc\<close> r by simp
    qed
  next
    assume h: "Suc a < ext0 slc \<or> Suc b < ext1 slc \<or> Suc c < ext2 slc"
    have p: "0 < ext0 slc" "0 < ext1 slc" "0 < ext2 slc" using extents_pos [OF ne] .
    consider (A) "Suc a < ext0 slc" | (B) "\<not> Suc a < ext0 slc" "Suc b < ext1 slc"
      | (C) "\<not> Suc a < ext0 slc" "\<not> Suc b < ext1 slc" "Suc c < ext2 slc"
      using h by blast
    then show "Suc k < laik_slice_size slc"
    proof cases
      case A
      show ?thesis using rank_bound [OF A b c] r by (simp add: lex_rank_def size_ext)
    next
      case B
      then have e: "ext0 slc = Suc a" using a by simp
      show ?thesis using rank_bound [OF p(1) B(2) c] r e
        by (simp add: lex_rank_def size_ext algebra_simps)
    next
      case C
      then have e: "ext0 slc = Suc a" "ext1 slc = Suc b" using a b by simp_all
      show ?thesis using rank_bound [OF p(1) p(2) C(3)] r e
        by (simp add: lex_rank_def size_ext algebra_simps)
    qed
  qed
  show "fst (lex_steps slc (Suc k)) = (Suc k < laik_slice_size slc)"
    using nl s iff by auto
  show "snd (lex_steps slc (Suc k)) = lex_end slc" if "Suc k = laik_slice_size slc"
  proof -
    have "\<not> (Suc a < ext0 slc \<or> Suc b < ext1 slc \<or> Suc c < ext2 slc)"
      using iff that by simp
    then have "next_lex slc (lex_at slc a b c) = (False, lex_end slc)" using nl by simp
    then show ?thesis using s by simp
  qed
qed

text \<open>
  Claim C4 (as amended).  For a non-empty slice of dimension 1, 2 or 3 the receive
  traversal is exhausted after exactly \<open>|slc|\<close> elements: the \<open>k\<close>-th call of
  \<^verbatim>\<open>next_lex\<close> (\<open>1 \<le> k \<le> |slc|\<close>) returns true iff \<open>k < |slc|\<close>, which is the assertion
  \<^verbatim>\<open>inTraversal == (roff < rcount)\<close> of \<^verbatim>\<open>got_data\<close>.  When it is exhausted, \<^verbatim>\<open>ridx\<close> has
  reached \<open>slc_to\<close> on the last axis only; the lower axes are back at \<open>slc_from\<close>.
\<close>

theorem recv_traversal_exhausted:
  assumes "dims slc = 1 \<or> dims slc = 2 \<or> dims slc = 3" and "slice_nonempty slc"
    and "0 < k" and "k \<le> laik_slice_size slc"
  shows "fst (lex_steps slc k) = (k < laik_slice_size slc) \<and>
         snd (lex_steps slc (laik_slice_size slc)) = lex_end slc"
proof -
  obtain j where j: "k = Suc j" using assms(3) by (cases k) auto
  then have jl: "j < laik_slice_size slc" using assms(4) by simp
  obtain m where m: "laik_slice_size slc = Suc m"
    using assms(3,4) by (cases "laik_slice_size slc") auto
  have ml: "m < laik_slice_size slc" using m by simp
  have a: "fst (lex_steps slc k) = (k < laik_slice_size slc)"
    unfolding j by (rule lex_steps_next(1) [OF assms(2) assms(1) jl])
  have "snd (lex_steps slc (Suc m)) = lex_end slc"
    by (rule lex_steps_next(2) [OF assms(2) assms(1) ml m [symmetric]])
  then have b: "snd (lex_steps slc (laik_slice_size slc)) = lex_end slc"
    unfolding m .
  from a b show ?thesis ..
qed

lemma slice_2x2_size: "laik_slice_size slice_2x2 = 4"
  by (simp add: laik_slice_size_def slice_2x2_def extent_def)

lemma slice_2x2_steps: "lex_steps slice_2x2 4 = (False, \<lparr>i0 = 0, i1 = 2, i2 = 0\<rparr>)"
  by (simp add: eval_nat_numeral next_lex_def slice_2x2_def Let_def)

text \<open>The theorem at the slice \<open>[0,2) \<times> [0,2)\<close>, for the third and the fourth element.\<close>

theorem recv_traversal_exhausted_witness:
  "slice_nonempty slice_2x2 \<and> fst (lex_steps slice_2x2 3) \<and> \<not> fst (lex_steps slice_2x2 4) \<and>
   snd (lex_steps slice_2x2 4) = lex_end slice_2x2"
proof -
  have d: "dims slice_2x2 = 1 \<or> dims slice_2x2 = 2 \<or> dims slice_2x2 = 3"
    by (simp add: slice_2x2_def)
  have ne: "slice_nonempty slice_2x2" by (simp add: slice_nonempty_def slice_2x2_def)
  have "laik_slice_size slice_2x2 = 4" by (simp add: laik_slice_size_def slice_2x2_def extent_def)
  then show ?thesis
    using recv_traversal_exhausted [OF d ne, of 3] recv_traversal_exhausted [OF d ne, of 4] ne
    by simp
qed

text \<open>
  Claim C4 as stated fails in two dimensions: after the four elements of
  \<open>[0,2) \<times> [0,2)\<close> the traversal index is \<open>(0, 2)\<close>, not \<open>slc_to = (2, 2)\<close>.
\<close>

theorem recv_traversal_end_counterexample:
  "slice_nonempty slice_2x2 \<and> laik_slice_size slice_2x2 = 4 \<and>
   \<not> index_isEqual (dims slice_2x2) (snd (lex_steps slice_2x2 4)) (slc_to slice_2x2)"
  by (simp add: slice_2x2_steps slice_2x2_size) (simp add: slice_nonempty_def slice_2x2_def index_isEqual_def)

section \<open>Collective backend: schedule and buffers\<close>







text \<open>
  Claim C8 (code bug).  \<^verbatim>\<open>laik_transplan_appendBuf\<close> tests \<^verbatim>\<open>if (buf)\<close> where
  \<^verbatim>\<open>laik_transplan_appendAction\<close> tests \<^verbatim>\<open>if (!tp->action)\<close>: it panics whenever
  \<^verbatim>\<open>malloc\<close> succeeds, and when \<^verbatim>\<open>malloc\<close> fails it stores the null pointer in the plan
  and returns its index.
\<close>

theorem appendBuf_panics_on_success:
  "laik_transplan_appendBuf tp sz realloc_ok (Some a) = Inl OutOfMemory \<and>
   laik_transplan_appendBuf laik_transplan_new sz True None =
     Inr (\<lparr>bufCount = 1, bufAllocCount = 40, buf = Some [None]\<rparr>, 0)"
  by (simp add: laik_transplan_appendBuf_def laik_transplan_new_def Let_def split: sum.splits)

section \<open>Point-to-point backend: the data path and protocol errors\<close>

lemma got_data_no_credit:
  assumes "rcount (peer d l) = 0 \<or> rcount (peer d l) = roff (peer d l)"
  shows "got_data d l msg =
     Inr (laik_log (if sscanf_data msg = None then LAIK_LL_Panic else LAIK_LL_Warning)
            (if sscanf_data msg = None then ''cannot parse data command''
             else ''TCP2 ignoring data without send permission'') d)"
  using assms by (auto simp: got_data_def Let_def split: option.splits)

lemma laik_log_same:
  "peer (laik_log lvl txt d) = peer d" "maps (laik_log lvl txt d) = maps d"
  "exit (laik_log lvl txt d) = exit d" "fds (laik_log lvl txt d) = fds d"
  "os_open (laik_log lvl txt d) = os_open d" "wire (laik_log lvl txt d) = wire d"
  "rset (laik_log lvl txt d) = rset d"
  by (simp_all add: laik_log_def)

text \<open>
  Claim C2.  A \<^verbatim>\<open>data\<close> command from peer \<open>l\<close> changes the receive state or the mapped
  memory only when the receiver holds outstanding credit for that peer
  (\<open>rcount > 0\<close> and \<open>roff < rcount\<close>); without credit the only effect is one log entry:
  the command is logged and dropped.  The receive counters are assumed consistent
  (\<open>recv_inv\<close>), which \<^verbatim>\<open>recv_slice\<close> establishes and \<^verbatim>\<open>got_data\<close> keeps.
\<close>

theorem got_data_needs_credit:
  assumes "recv_inv (peer d l)"
  shows "(\<not> (rcount (peer d l) > 0 \<and> roff (peer d l) < rcount (peer d l)) \<longrightarrow>
            (\<exists>lvl txt. got_data d l msg = Inr (laik_log lvl txt d))) \<and>
         (\<forall>d'. got_data d l msg = Inr d' \<and>
               (peer d' \<noteq> peer d \<or> maps d' \<noteq> maps d \<or> exit d' \<noteq> exit d) \<longrightarrow>
               rcount (peer d l) > 0 \<and> roff (peer d l) < rcount (peer d l))"
proof -
  have drop: "\<exists>lvl txt. got_data d l msg = Inr (laik_log lvl txt d)"
    if "\<not> (rcount (peer d l) > 0 \<and> roff (peer d l) < rcount (peer d l))"
  proof -
    have "rcount (peer d l) = 0 \<or> rcount (peer d l) = roff (peer d l)"
      using assms that unfolding recv_inv_def by linarith
    from got_data_no_credit [OF this] show ?thesis by blast
  qed
  have "rcount (peer d l) > 0 \<and> roff (peer d l) < rcount (peer d l)"
    if "got_data d l msg = Inr d'" "peer d' \<noteq> peer d \<or> maps d' \<noteq> maps d \<or> exit d' \<noteq> exit d"
    for d'
  proof (rule ccontr)
    assume "\<not> ?thesis"
    from drop [OF this] obtain lvl t where "got_data d l msg = Inr (laik_log lvl t d)"
      by blast
    then have "d' = laik_log lvl t d" using that(1) by simp
    then show False using that(2) by (simp add: laik_log_same)
  qed
  then show ?thesis using drop by blast
qed

lemma example_no_credit: "recv_inv (peer example_d 2)"
  by (simp add: recv_inv_def example_d_def example_peers_def no_peer_def)

text \<open>The theorem at the example state, where process 2 has no credit.\<close>

theorem got_data_needs_credit_witness:
  "recv_inv (peer example_d 2) \<and>
   (\<exists>lvl txt. got_data example_d 2 ''data 2 (0:4) 0a ff'' = Inr (laik_log lvl txt example_d))"
proof -
  have "\<not> (rcount (peer example_d 2) > 0 \<and> roff (peer example_d 2) < rcount (peer example_d 2))"
    by (simp add: example_d_def example_peers_def no_peer_def)
  then show ?thesis
    using got_data_needs_credit [OF example_no_credit, of "''data 2 (0:4) 0a ff''"] example_no_credit
    by blast
qed

lemma store_element_inv:
  assumes "store_element d l h data_in = Inr d'" and "recv_inv (peer d l)"
    and "\<not> (rcount (peer d l) = 0 \<or> rcount (peer d l) = roff (peer d l))"
  shows "recv_inv (peer d' l) \<and> roff (peer d' l) = roff (peer d l) + 1 \<and>
         rcount (peer d' l) = rcount (peer d l)"
  using assms
  by (auto simp: store_element_def Let_def recv_inv_def split: option.splits if_splits sum.splits)



lemma example_lid5: "lid (fds example_d 5) = 2"
  by (simp add: example_d_def example_fds_def)


















lemma lower_example: "lower_maxfds ((rset example_d)(5 := False)) 5 = Some 4"
  by (simp add: eval_nat_numeral example_d_def)

lemma example_cb5: "cb (fds example_d 5) = Some cb_got_bytes" "rbuf (fds example_d 5) = []"
  "maxfds example_d = 5"
  by (simp_all add: example_d_def example_fds_def)

lemma eof_result:
  "got_bytes example_d 5 Read_eof =
     Inr (example_d\<lparr>os_open := (os_open example_d)(5 := False),
                    rset := (rset example_d)(5 := False), maxfds := 4,
                    fds := (fds example_d)(5 := (fds example_d 5)\<lparr>rbuf := [], cb := None\<rparr>)\<rparr>)"
  by (simp add: got_bytes_def process_rbuf_def rm_rfd_def MAX_FDS_def RBUF_LEN_def example_cb5
      lower_example Let_def)

lemma quit_result:
  "got_cmd example_d 5 ''quit'' =
     Inr (example_d\<lparr>os_open := (os_open example_d)(5 := False),
                    rset := (rset example_d)(5 := False), maxfds := 4,
                    fds := (fds example_d)(5 := (fds example_d 5)\<lparr>cb := None\<rparr>),
                    peer := (peer example_d)(2 := (peer example_d 2)\<lparr>fd := - 1\<rparr>)\<rparr>)"
  by (simp add: got_cmd_def first_char_def example_lid5 rm_rfd_def MAX_FDS_def example_cb5
      lower_example Let_def)

lemma after_eof_eq:
  "after_eof = example_d\<lparr>os_open := (os_open example_d)(5 := False),
                    rset := (rset example_d)(5 := False), maxfds := 4,
                    fds := (fds example_d)(5 := (fds example_d 5)\<lparr>rbuf := [], cb := None\<rparr>)\<rparr>"
  by (simp add: after_eof_def eof_result)

lemma after_quit_eq:
  "after_quit = example_d\<lparr>os_open := (os_open example_d)(5 := False),
                    rset := (rset example_d)(5 := False), maxfds := 4,
                    fds := (fds example_d)(5 := (fds example_d 5)\<lparr>cb := None\<rparr>),
                    peer := (peer example_d)(2 := (peer example_d 2)\<lparr>fd := - 1\<rparr>)\<rparr>"
  by (simp add: after_quit_def quit_result)

lemma after_eof_facts:
  "cb (fds after_eof 5) = None" "\<not> os_open after_eof 5" "fd (peer after_eof 2) = 5"
  by (simp_all add: after_eof_eq example_d_def example_peers_def)

lemma after_eof_send:
  "ensure_conn after_eof 2 = Inr after_eof"
  "send_cmd after_eof 2 ''allowsend 2 2'' =
     Inr (laik_log LAIK_LL_Warning ''TCP2 write error on FD'' after_eof)"
  by (simp_all add: send_cmd_def ensure_conn_def write_cmd_def MAX_PEERS_def after_eof_facts)

lemma dec_1: "dec 1 = ''1''"
  by code_simp

lemma after_quit_send:
  "fd (peer after_quit 2) = - 1"
  "wire (projr (send_cmd after_quit 2 ''allowsend 2 2'')) = [(6, ''myid 1''), (6, ''allowsend 2 2'')]"
  by (simp_all add: after_quit_eq send_cmd_def ensure_conn_def write_cmd_def add_rfd_def
      MAX_PEERS_def MAX_FDS_def example_d_def example_peers_def example_fds_def no_peer_def
      no_fd_def Let_def dec_1)

text \<open>
  Claim C9 (code bug).  When \<^verbatim>\<open>read\<close> returns end of file, \<^verbatim>\<open>got_bytes\<close> closes the
  descriptor and removes it from the loop but leaves \<^verbatim>\<open>peer[lid].fd\<close> as it is (the
  \<^verbatim>\<open>quit\<close> branch of \<^verbatim>\<open>got_cmd\<close> resets it to -1).  The next \<^verbatim>\<open>send_cmd\<close> finds a
  descriptor in the peer entry, \<^verbatim>\<open>ensure_conn\<close> returns without dialling, and the
  write goes to the closed descriptor.  After \<^verbatim>\<open>quit\<close> the same send re-dials.
\<close>

theorem eof_leaves_stale_descriptor:
  "\<not> isl (got_bytes example_d 5 Read_eof) \<and>
   cb (fds after_eof 5) = None \<and> \<not> os_open after_eof 5 \<and>
   fd (peer after_eof 2) = 5 \<and>
   ensure_conn after_eof 2 = Inr after_eof \<and>
   send_cmd after_eof 2 ''allowsend 2 2'' =
     Inr (laik_log LAIK_LL_Warning ''TCP2 write error on FD'' after_eof) \<and>
   fd (peer after_quit 2) = - 1 \<and>
   wire (projr (send_cmd after_quit 2 ''allowsend 2 2'')) = [(6, ''myid 1''), (6, ''allowsend 2 2'')]"
  by (simp add: eof_result after_eof_facts after_eof_send after_quit_send)

section \<open>Point-to-point backend: sending a slice\<close>







lemma connected_wire: "connected (d\<lparr>wire := w\<rparr>) l = connected d l"
  by (simp add: connected_def)






































lemma example_split: "split_lines (''allowsend 2 2'' @ [CHR 0x0A]) [] = ([''allowsend 2 2''], [])"
  by simp

lemma scan_allowsend: "sscanf_int_int ''allowsend 2 2'' = Some (2, 2)"
  by code_simp


lemma example_scount: "scount (peer example_d 2) = 0" "lid (fds example_d 5) = 2"
  "cb (fds example_d 5) = Some cb_got_bytes" "rbuf (fds example_d 5) = []" "maxfds example_d = 5"
  by (simp_all add: example_d_def example_peers_def example_fds_def no_peer_def)

lemma example_got_cmd:
  "got_cmd (example_d\<lparr>exit := 0\<rparr>) 5 ''allowsend 2 2'' = Inr example_granted"
  by (simp add: got_cmd_def Let_def first_char_def scan_allowsend example_scount example_granted_def)












section \<open>Switching the partitioning: the local copy and the initialization\<close>

subsection \<open>The local copy of slices of fewer than \<open>2^31\<close> elements\<close>

text \<open>
  \<^verbatim>\<open>int count\<close> holds the number of elements of a slice when that number is below
  \<open>2^31\<close>.
\<close>

lemma uint_as_unat: "uint (w :: 64 word) = int (unat w)"
  by simp

lemma sint_ucast_fits:
  fixes w :: "64 word"
  assumes "unat w < 2 ^ 31"
  shows "sint (ucast w :: 32 word) = int (unat w)"
proof -
  have "int (unat w) < int (2 ^ 31)" using assms by (simp only: of_nat_less_iff)
  then have "int (unat w) < 2 ^ 31" by simp
  then have k: "uint w < 2 ^ 31" unfolding uint_as_unat .
  have k0: "0 \<le> uint w" by simp
  have p: "(2::int) ^ 31 < 2 ^ 32" "- ((2::int) ^ 31) \<le> 0" by simp_all
  have k32: "uint w < 2 ^ 32" using k p by linarith
  have km: "- (2 ^ 31) \<le> uint w" using k0 p by linarith
  have "uint (ucast w :: 32 word) = take_bit 32 (uint w)"
    by (simp only: unsigned_ucast_eq len_of_numeral_defs) simp
  also have "\<dots> = uint w" using k0 k32 by (rule take_bit_int_eq_self)
  finally have u: "uint (ucast w :: 32 word) = uint w" .
  have "sint (ucast w :: 32 word) = signed_take_bit 31 (uint (ucast w :: 32 word))"
    by (simp only: sint_uint) simp
  also have "\<dots> = uint w" unfolding u using km k by (rule signed_take_bit_int_eq_self)
  finally show ?thesis unfolding uint_as_unat .
qed

lemma slice_count_fits:
  assumes "unat (i0 (slc_to s) - i0 (slc_from s)) < 2 ^ 31"
  shows "slice_count s = int (unat (i0 (slc_to s) - i0 (slc_from s)))"
  unfolding slice_count_def using assms by (rule sint_ucast_fits)

text \<open>
  Offset arithmetic: index \<open>i\<close> of the slice \<open>[lo, hi)\<close> sits at slot
  \<open>(lo - b) + (i - lo)\<close> of a mapping with base index \<open>b\<close> that holds the slice.
\<close>

lemma slot_of_index:
  fixes i lo hi b :: uint64
  assumes "lo \<le> i" "i < hi" "unat (lo - b) + unat (hi - lo) \<le> n" "n < 2 ^ 64"
  shows "unat (i - b) = unat (lo - b) + unat (i - lo)"
    and "unat (i - lo) < unat (hi - lo)"
proof -
  have lh: "lo \<le> hi" using assms(1,2) by simp
  have d: "unat (i - lo) = unat i - unat lo" using assms(1) by (simp add: unat_sub)
  have e: "unat (hi - lo) = unat hi - unat lo" using lh by (simp add: unat_sub)
  have "unat i < unat hi" using assms(2) by (simp add: word_less_nat_alt)
  moreover have "unat lo \<le> unat i" using assms(1) by (simp add: word_le_nat_alt)
  ultimately show lt: "unat (i - lo) < unat (hi - lo)" using d e by linarith
  have "i - b = (lo - b) + (i - lo)" by simp
  moreover have "unat (lo - b) + unat (i - lo) < 2 ^ LENGTH(64)"
    using lt assms(3,4) by simp
  ultimately show "unat (i - b) = unat (lo - b) + unat (i - lo)"
    by (simp only: unat_add_lem [THEN iffD1])
qed

text \<open>
  One pass of the loop of \<^verbatim>\<open>copyMap\<close> keeps the shape of the new mapping, keeps every
  slot that already holds the old value of its index, and makes the slots of its slice
  hold the old values.
\<close>

lemma old_slot_in_range:
  fixes lo tb fb :: uint64
  assumes "unat (lo - fb) + cnt \<le> n" "n < 2 ^ 64" "unat (lo - tb) \<le> k" "k < unat (lo - tb) + cnt"
  shows "unat (word_of_nat k + tb - fb) = unat (lo - fb) + (k - unat (lo - tb))"
proof -
  define j where "j = k - unat (lo - tb)"
  have k: "k = unat (lo - tb) + j" and j: "j < cnt" using assms(3,4) by (simp_all add: j_def)
  have "(word_of_nat k :: uint64) = (lo - tb) + word_of_nat j" unfolding k by simp
  then have w: "word_of_nat k + tb - fb = (lo - fb) + word_of_nat j" by simp
  have jj: "j < 2 ^ 64" using j assms(1,2) by linarith
  have uj: "unat (word_of_nat j :: uint64) = j" using jj by (simp add: unat_of_nat)
  have "unat (lo - fb) + unat (word_of_nat j :: uint64) < 2 ^ LENGTH(64)"
    using uj j assms(1,2) by simp
  then have "unat ((lo - fb) + word_of_nat j) = unat (lo - fb) + unat (word_of_nat j :: uint64)"
    by (simp only: unat_add_lem [THEN iffD1])
  then show ?thesis unfolding w using uj by (simp add: j_def)
qed

lemma copy_local_shape:
  assumes "copy_local esize fm tm s = Inr tm'"
  shows "baseIdx tm' = baseIdx tm" "map_count tm' = map_count tm"
  using assms
  by (auto simp: copy_local_def Let_def split: if_splits option.splits prod.splits)

lemma copy_local_keeps:
  assumes c: "copy_local esize fm tm s = Inr tm'" and src: "base fm = Some src"
    and h: "holds_old src fm tm k"
  shows "holds_old src fm tm' k"
proof (cases "0 < slice_count s")
  case False
  then have "tm' = tm" using c by (simp add: copy_local_def Let_def)
  then show ?thesis using h by simp
next
  case True
  let ?cnt = "nat (slice_count s)"
  let ?fs = "unat (i0 (slc_from s) - i0 (baseIdx fm))"
  let ?ts = "unat (i0 (slc_from s) - i0 (baseIdx tm))"
  from h obtain dst where dst: "base tm = Some dst"
    and v: "dst k = src (unat (word_of_nat k + i0 (baseIdx tm) - i0 (baseIdx fm)))"
    by (auto simp: holds_old_def split: option.splits)
  from c True src dst have b: "?fs + ?cnt \<le> unat (map_count fm)" "?ts + ?cnt \<le> unat (map_count tm)"
    and t: "tm' = tm\<lparr>base := Some (memcpy_elems dst ?ts src ?fs ?cnt)\<rparr>"
    by (auto simp: copy_local_def Let_def split: if_splits)
  have n: "unat (map_count fm) < 2 ^ 64" using unsigned_less [of "map_count fm", where ?'a = nat] by simp
  show ?thesis
  proof (cases "?ts \<le> k \<and> k < ?ts + ?cnt")
    case False
    then show ?thesis using t v by (auto simp: holds_old_def memcpy_elems_def)
  next
    case True
    then have "unat (word_of_nat k + i0 (baseIdx tm) - i0 (baseIdx fm)) = ?fs + (k - ?ts)"
      using old_slot_in_range [OF b(1) n] by simp
    then show ?thesis using t True by (simp add: holds_old_def memcpy_elems_def)
  qed
qed

lemma copy_local_sets:
  assumes c: "copy_local esize fm tm s = Inr tm'" and src: "base fm = Some src"
    and pos: "0 < slice_count s"
    and k: "unat (i0 (slc_from s) - i0 (baseIdx tm)) \<le> k"
           "k < unat (i0 (slc_from s) - i0 (baseIdx tm)) + nat (slice_count s)"
  shows "holds_old src fm tm' k"
proof -
  let ?cnt = "nat (slice_count s)"
  let ?fs = "unat (i0 (slc_from s) - i0 (baseIdx fm))"
  let ?ts = "unat (i0 (slc_from s) - i0 (baseIdx tm))"
  from c pos src obtain dst where dst: "base tm = Some dst"
    and b: "?fs + ?cnt \<le> unat (map_count fm)"
    and t: "tm' = tm\<lparr>base := Some (memcpy_elems dst ?ts src ?fs ?cnt)\<rparr>"
    by (auto simp: copy_local_def Let_def split: if_splits option.splits)
  have n: "unat (map_count fm) < 2 ^ 64" using unsigned_less [of "map_count fm", where ?'a = nat] by simp
  have "unat (word_of_nat k + i0 (baseIdx tm) - i0 (baseIdx fm)) = ?fs + (k - ?ts)"
    using old_slot_in_range [OF b n k] .
  then show ?thesis using t k by (simp add: holds_old_def memcpy_elems_def)
qed

lemma copy_locals_shape:
  "copy_locals esize fm tm ss = Inr tm' \<Longrightarrow> baseIdx tm' = baseIdx tm \<and> map_count tm' = map_count tm"
proof (induction ss arbitrary: tm)
  case Nil
  then show ?case by simp
next
  case (Cons s ss)
  from Cons.prems obtain tm1 where 1: "copy_local esize fm tm s = Inr tm1"
    and 2: "copy_locals esize fm tm1 ss = Inr tm'" by (auto split: sum.splits)
  show ?case using Cons.IH [OF 2] copy_local_shape [OF 1] by simp
qed

lemma copy_locals_keeps:
  "copy_locals esize fm tm ss = Inr tm' \<Longrightarrow> base fm = Some src \<Longrightarrow> holds_old src fm tm k \<Longrightarrow>
     holds_old src fm tm' k"
proof (induction ss arbitrary: tm)
  case Nil
  then show ?case by simp
next
  case (Cons s ss)
  from Cons.prems(1) obtain tm1 where 1: "copy_local esize fm tm s = Inr tm1"
    and 2: "copy_locals esize fm tm1 ss = Inr tm'" by (auto split: sum.splits)
  show ?case using Cons.IH [OF 2 Cons.prems(2) copy_local_keeps [OF 1 Cons.prems(2,3)]] .
qed

lemma copy_locals_sets:
  "copy_locals esize fm tm ss = Inr tm' \<Longrightarrow> base fm = Some src \<Longrightarrow> s \<in> set ss \<Longrightarrow>
   0 < slice_count s \<Longrightarrow>
   unat (i0 (slc_from s) - i0 (baseIdx tm)) \<le> k \<Longrightarrow>
   k < unat (i0 (slc_from s) - i0 (baseIdx tm)) + nat (slice_count s) \<Longrightarrow>
   holds_old src fm tm' k"
proof (induction ss arbitrary: tm)
  case Nil
  then show ?case by simp
next
  case (Cons x ss)
  from Cons.prems(1) obtain tm1 where 1: "copy_local esize fm tm x = Inr tm1"
    and 2: "copy_locals esize fm tm1 ss = Inr tm'" by (auto split: sum.splits)
  note sh = copy_local_shape [OF 1]
  show ?case
  proof (cases "s = x")
    case True
    have "holds_old src fm tm1 k"
      using copy_local_sets [OF 1 Cons.prems(2)] Cons.prems(4,5,6) True by simp
    then show ?thesis using copy_locals_keeps [OF 2 Cons.prems(2)] by simp
  next
    case False
    then have "s \<in> set ss" using Cons.prems(3) by simp
    then show ?thesis using Cons.IH [OF 2 Cons.prems(2)] Cons.prems(4,5,6) sh by simp
  qed
qed

text \<open>
  What \<^verbatim>\<open>copyMap\<close> and \<^verbatim>\<open>laik_set_partitioning\<close> keep: when the call returns, the
  transition has no init entries, and a local slice has fewer than \<open>2^31\<close> elements and
  lies within the old mapping and within the new one as the backend left it, every
  index of that slice has its old value in the new active mapping.
\<close>

lemma copyMap_keeps_small_slices:
  assumes c: "copyMap d t tm (Some fm) = Inr tm'"
    and ne: "map_count tm \<noteq> 0"
    and src: "base fm = Some src"
    and s: "s \<in> set (local_slices t)"
    and wf: "slice_within s fm" and wt: "slice_within s tm"
    and small: "unat (i0 (slc_to s) - i0 (slc_from s)) < 2 ^ 31"
    and i: "in_slice_1d i s"
  shows "elem_at tm' i = elem_at fm i"
proof -
  let ?lo = "i0 (slc_from s)" and ?hi = "i0 (slc_to s)"
  let ?tb = "i0 (baseIdx tm)" and ?fb = "i0 (baseIdx fm)"
  from c ne src have cl: "copy_locals (data_elemsize d) fm tm (local_slices t) = Inr tm'"
    by (auto simp: copyMap_def split: if_splits)
  have lo: "?lo \<le> i" and hi: "i < ?hi" using i by (simp_all add: in_slice_1d_def)
  have bt: "unat (?lo - ?tb) + unat (?hi - ?lo) \<le> unat (map_count tm)"
    using wt by (simp add: slice_within_def)
  have n: "unat (map_count tm) < 2 ^ 64"
    using unsigned_less [of "map_count tm", where ?'a = nat] by simp
  have k: "unat (i - ?tb) = unat (?lo - ?tb) + unat (i - ?lo)"
    and j: "unat (i - ?lo) < unat (?hi - ?lo)"
    using slot_of_index [OF lo hi bt n] by simp_all
  have cnt: "slice_count s = int (unat (?hi - ?lo))" using small by (rule slice_count_fits)
  have "0 < unat (?hi - ?lo)" using j by linarith
  then have "0 < int (unat (?hi - ?lo))" by (simp only: of_nat_0_less_iff)
  then have pos: "0 < slice_count s" unfolding cnt .
  have nc: "nat (slice_count s) = unat (?hi - ?lo)" unfolding cnt by (rule nat_int)
  have r1: "unat (?lo - ?tb) \<le> unat (i - ?tb)" using k by linarith
  have r2: "unat (i - ?tb) < unat (?lo - ?tb) + nat (slice_count s)"
    unfolding nc using k j by linarith
  have h: "holds_old src fm tm' (unat (i - ?tb))"
    using copy_locals_sets [OF cl src s pos r1 r2] .
  have sh: "baseIdx tm' = baseIdx tm" using copy_locals_shape [OF cl] by simp
  have w: "(word_of_nat (unat (i - ?tb)) :: uint64) + ?tb - ?fb = i - ?fb" by simp
  from h obtain dst where dst: "base tm' = Some dst"
    and v: "dst (unat (i - ?tb)) = src (unat (i - ?fb))"
    unfolding holds_old_def sh w by (auto split: option.splits)
  show ?thesis using dst v src sh by (simp add: elem_at_def)
qed

lemma set_partitioning_keeps_small_slices:
  assumes r: "laik_set_partitioning d brd malloc_res t exec = Inr d'"
    and ex: "exec d t (allocMap brd malloc_res) = Inr tm"
    and ne: "map_count tm \<noteq> 0"
    and old: "activeMapping d = Some fm" "base fm = Some src"
    and noinit: "init_slices t = []"
    and s: "s \<in> set (local_slices t)"
    and wf: "slice_within s fm" and wt: "slice_within s tm"
    and small: "unat (i0 (slc_to s) - i0 (slc_from s)) < 2 ^ 31"
    and i: "in_slice_1d i s"
  shows "\<exists>tm'. activeMapping d' = Some tm' \<and> elem_at tm' i = elem_at fm i"
proof -
  have l: "length (local_slices t) > 0" using s by (cases "local_slices t") auto
  from r ex l noinit old(1) obtain tm' where c: "copyMap d t tm (Some fm) = Inr tm'"
    and d': "d' = d\<lparr>activePartitioning := Some brd, activeMapping := Some tm'\<rparr>"
    by (auto simp: laik_set_partitioning_def Let_def split: sum.splits)
  have "elem_at tm' i = elem_at fm i"
    using copyMap_keeps_small_slices [OF c ne old(2) s wf wt small i] .
  then show ?thesis using d' by simp
qed

subsection \<open>A local slice of \<open>2^31\<close> elements\<close>

lemma big_count: "slice_count big_slice = - (2 ^ 31)"
  by (simp add: slice_count_def slice_1d_def big_slice_def)

lemma big_alloc:
  "allocMap big_slice (Some fresh_zero) =
     \<lparr>map_count = 2 ^ 31, baseIdx = \<lparr>i0 = 0, i1 = 0, i2 = 0\<rparr>, base = Some fresh_zero\<rparr>"
  by (simp add: allocMap_def slice_1d_def big_slice_def Let_def)

lemma big_copy: "copy_local 1 fm tm big_slice = Inr tm"
  by (simp add: copy_local_def big_count Let_def)

lemma big_result:
  "laik_set_partitioning big_data big_slice (Some fresh_zero) keep_all exec_nothing =
     Inr (big_data\<lparr>activePartitioning := Some big_slice,
                   activeMapping := Some \<lparr>map_count = 2 ^ 31, baseIdx = \<lparr>i0 = 0, i1 = 0, i2 = 0\<rparr>,
                                           base = Some fresh_zero\<rparr>\<rparr>)"
  by (simp add: laik_set_partitioning_def big_alloc exec_nothing_def keep_all_def copyMap_def
      big_copy big_data_def Let_def)

text \<open>
  Claim C1 (code bug).  \<^verbatim>\<open>copyMap\<close> keeps the number of elements of a local slice in an
  \<^verbatim>\<open>int\<close>.  For the slice \<open>[0, 2^31)\<close> of a \<^verbatim>\<open>char\<close> container that number is \<open>-2^31\<close>, the
  test \<^verbatim>\<open>count > 0\<close> fails and nothing is copied: \<^verbatim>\<open>laik_set_partitioning\<close> returns, and
  index 0, which is in the local slice and held 1 in the old mapping, holds in the new
  active mapping what \<^verbatim>\<open>malloc\<close> left there (here 0).
\<close>

theorem set_partitioning_loses_large_slice:
  "slice_count big_slice = - (2 ^ 31) \<and>
   \<not> isl (laik_set_partitioning big_data big_slice (Some fresh_zero) keep_all exec_nothing) \<and>
   the (base (the (activeMapping big_data))) 0 = Raw [1] \<and>
   the (base (the (activeMapping
     (projr (laik_set_partitioning big_data big_slice (Some fresh_zero) keep_all
               exec_nothing))))) 0 = Raw [0]"
  by (simp add: big_count big_result) (simp add: big_data_def fresh_zero_def)

subsection \<open>The values and the slots \<^verbatim>\<open>initMap\<close> writes\<close>

lemma alloc_0_2: "fresh_map 0 2 = \<lparr>map_count = 2, baseIdx = \<lparr>i0 = 0, i1 = 0, i2 = 0\<rparr>,
     base = Some (\<lambda>k. Flt (Finite 5))\<rparr>"
  by (simp add: fresh_map_def allocMap_def slice_1d_def Let_def)

lemma alloc_1_4: "fresh_map 1 4 = \<lparr>map_count = 3, baseIdx = \<lparr>i0 = 1, i1 = 0, i2 = 0\<rparr>,
     base = Some (\<lambda>k. Flt (Finite 5))\<rparr>"
  by (simp add: fresh_map_def allocMap_def slice_1d_def Let_def)

lemma loop_0_2:
  "init_loop mem 2 v 0 2 = Inr (mem(0 := v, Suc 0 := v))"
  by (simp add: init_loop.simps)

lemma loop_1_3:
  "init_loop mem 3 v 1 3 = Inr (mem(Suc 0 := v, 2 := v))"
  by (simp add: init_loop.simps)

lemma min_result:
  "initMap double_data (init_only 0 2 LAIK_AB_Min) (fresh_map 0 2) =
     Inr ((fresh_map 0 2)\<lparr>base := Some ((\<lambda>k. Flt (Finite 5))
             (0 := Flt (Finite (9 * 10 ^ 99)), Suc 0 := Flt (Finite (9 * 10 ^ 99))))\<rparr>)"
  by (simp add: initMap_def init_only_def init_entry_def init_value_def double_data_def alloc_0_2
      slice_1d_def loop_0_2 Let_def)

lemma sum_result:
  "initMap double_data (init_only 1 3 LAIK_AB_Sum) (fresh_map 1 4) =
     Inr ((fresh_map 1 4)\<lparr>base := Some ((\<lambda>k. Flt (Finite 5))
             (Suc 0 := Flt (Finite 0), 2 := Flt (Finite 0)))\<rparr>)"
  by (simp add: initMap_def init_only_def init_entry_def init_value_def double_data_def alloc_1_4
      slice_1d_def loop_1_3 Let_def)

lemma below_dbl_max: "(9 * 10 ^ 99 :: real) < DBL_MAX"
  by (simp add: DBL_MAX_def)

lemma float_min_is_infinity:
  "double_to_float (9 * 10 ^ 99) = PlusInf \<and> double_to_float (- (9 * 10 ^ 99)) = MinusInf"
  by (simp add: double_to_float_def FLT_MAX_def)

text \<open>
  Claim C5 (code bug).  For \<^verbatim>\<open>LAIK_AB_Min\<close> \<^verbatim>\<open>initMap\<close> writes \<^verbatim>\<open>9e99\<close> (its comment:
  ``should be largest double val''), which is below \<^verbatim>\<open>DBL_MAX\<close>, so it is not the
  maximum of the element type.  And the loop writes \<^verbatim>\<open>dbase[j]\<close> for the global index
  \<open>j\<close>, where \<^verbatim>\<open>copyMap\<close> subtracts the base index of the mapping: in a mapping for the
  indexes \<open>[1, 4)\<close>, initializing \<open>[1, 3)\<close> for a sum leaves index 1 (slot 0) as it was
  and writes 0 to index 3 (slot 2), which is not in the slice.
\<close>

theorem initMap_min_is_not_the_type_maximum:
  "map (the (base (projr (initMap double_data (init_only 0 2 LAIK_AB_Min) (fresh_map 0 2))))) [0, 1] =
     [Flt (Finite (9 * 10 ^ 99)), Flt (Finite (9 * 10 ^ 99))] \<and>
   (9 * 10 ^ 99 :: real) < DBL_MAX \<and>
   map (the (base (projr (initMap double_data (init_only 1 3 LAIK_AB_Sum) (fresh_map 1 4))))) [0, 1, 2] =
     [Flt (Finite 5), Flt (Finite 0), Flt (Finite 0)]"
  by (simp add: min_result sum_result DBL_MAX_def)

end
